theory Spec2Isabelle
  imports Complex_Main
begin

section \<open>Sailing vessel core: cannon, sail, wind and deck geometry\<close>

text \<open>
  The TypeScript sources compute with IEEE doubles; the embedding idealises every
  \<^verbatim>\<open>number\<close> as a \<^typ>\<open>real\<close> and \<^verbatim>\<open>Math.PI\<close> as \<^term>\<open>pi\<close>. \<^verbatim>\<open>Date.now()\<close> and
  \<^verbatim>\<open>Math.random()\<close> are read from the environment, so the functions that call them take
  the value read as an extra argument. Console output and calls on the game object are
  returned as a list of events.
\<close>

subsection \<open>CannonModule (CannonModule.ts)\<close>

record point =
  px :: real
  py :: real

text \<open>
  The field \<^verbatim>\<open>game: any | null\<close>. The only things \<^verbatim>\<open>fire\<close> asks of it are whether it is
  truthy and whether \<^verbatim>\<open>typeof game.addCannonball === 'function'\<close>.
\<close>

datatype game_ref = NoGame | GameObject (hasAddCannonball: bool)

datatype event =
    ConsoleError string
  | ConsoleLog string
  | AddCannonball real real real real

record cannon =
  position :: point
  rotation :: real
  turretAngle :: real
  targetTurretAngle :: real
  rotationSpeed :: real
  reloadTime :: real
  lastFiredTime :: real
  isLoaded :: bool
  game :: game_ref

text \<open>The constructor defaults of the class.\<close>

definition newCannon :: "point \<Rightarrow> real \<Rightarrow> cannon" where
  "newCannon pos rot =
     \<lparr> position = pos, rotation = rot, turretAngle = 0, targetTurretAngle = 0,
       rotationSpeed = 0.005, reloadTime = 2000, lastFiredTime = 0, isLoaded = True,
       game = NoGame \<rparr>"

text \<open>
  \<^verbatim>\<open>fire(worldX, worldY, shipAngle, shipVelocity?)\<close>. The result is the returned boolean,
  the cannon afterwards and the events emitted, in order. \<open>now\<close> is the value of
  \<^verbatim>\<open>Date.now()\<close>.
\<close>

definition fire :: "real \<Rightarrow> real \<Rightarrow> real \<Rightarrow> point option \<Rightarrow> real \<Rightarrow> cannon
    \<Rightarrow> bool \<times> cannon \<times> event list" where
  "fire worldX worldY shipAngle shipVelocity now c =
     (if \<not> isLoaded c then (False, c, [])
      else
        let firingAngle = shipAngle + turretAngle c + rotation c + pi;
            c' = c\<lparr>isLoaded := False, lastFiredTime := now\<rparr>;
            barrelLength = 20;
            spawnX = worldX - sin firingAngle * barrelLength;
            spawnY = worldY + cos firingAngle * barrelLength
        in
          (case game c' of
             NoGame \<Rightarrow>
               (False, c', [ConsoleError ''Cannot fire cannonball: No game reference set''])
           | GameObject has \<Rightarrow>
               if \<not> has then
                 (False, c',
                  [ConsoleError
                     ''Cannot fire cannonball: Game reference missing addCannonball method'',
                   ConsoleLog ''Game object:''])
               else
                 let finalSpeed =
                       (case shipVelocity of
                          None \<Rightarrow> 10
                        | Some v \<Rightarrow> 10 + sqrt (px v * px v + py v * py v) * 0.5)
                 in (True, c',
                     [AddCannonball spawnX spawnY firingAngle finalSpeed,
                      ConsoleLog ''Cannon fired''])))"

text \<open>
  The \<^verbatim>\<open>while\<close> loops of \<^verbatim>\<open>update\<close> that bring an angle back into a window by whole
  turns. Each is a recursive function whose termination is proved with a measure: the
  number of turns still to go.
  \<^item> \<^verbatim>\<open>while (x > b) x -= Math.PI * 2\<close>
  \<^item> \<^verbatim>\<open>while (x < b) x += Math.PI * 2\<close>
  \<^item> \<^verbatim>\<open>while (x >= b) x -= Math.PI * 2\<close>
\<close>

function whileAbove :: "real \<Rightarrow> real \<Rightarrow> real" where
  "whileAbove b x = (if x > b then whileAbove b (x - pi * 2) else x)"
  by pat_completeness auto
termination
proof (relation "measure (\<lambda>(b, x). nat \<lceil>(x - b) / (pi * 2)\<rceil>)")
  show "wf (measure (\<lambda>(b, x). nat \<lceil>(x - b) / (pi * 2)\<rceil>))" by simp
next
  fix b x :: real
  assume gt: "b < x"
  have eq: "(x - pi * 2 - b) / (pi * 2) = (x - b) / (pi * 2) - 1"
    by (simp add: field_simps)
  have pos: "0 < (x - b) / (pi * 2)" using gt by simp
  then have "0 < \<lceil>(x - b) / (pi * 2)\<rceil>" by linarith
  then show "((b, x - pi * 2), (b, x)) \<in> measure (\<lambda>(b, x). nat \<lceil>(x - b) / (pi * 2)\<rceil>)"
    by (simp add: eq)
qed

function whileBelow :: "real \<Rightarrow> real \<Rightarrow> real" where
  "whileBelow b x = (if x < b then whileBelow b (x + pi * 2) else x)"
  by pat_completeness auto
termination
proof (relation "measure (\<lambda>(b, x). nat \<lceil>(b - x) / (pi * 2)\<rceil>)")
  show "wf (measure (\<lambda>(b, x). nat \<lceil>(b - x) / (pi * 2)\<rceil>))" by simp
next
  fix b x :: real
  assume lt: "x < b"
  have eq: "(b - (x + pi * 2)) / (pi * 2) = (b - x) / (pi * 2) - 1"
    by (simp add: field_simps)
  have pos: "0 < (b - x) / (pi * 2)" using lt by simp
  then have "0 < \<lceil>(b - x) / (pi * 2)\<rceil>" by linarith
  then show "((b, x + pi * 2), (b, x)) \<in> measure (\<lambda>(b, x). nat \<lceil>(b - x) / (pi * 2)\<rceil>)"
    by (simp add: eq)
qed

function whileAtLeast :: "real \<Rightarrow> real \<Rightarrow> real" where
  "whileAtLeast b x = (if x \<ge> b then whileAtLeast b (x - pi * 2) else x)"
  by pat_completeness auto
termination
proof (relation "measure (\<lambda>(b, x). nat (\<lfloor>(x - b) / (pi * 2)\<rfloor> + 1))")
  show "wf (measure (\<lambda>(b, x). nat (\<lfloor>(x - b) / (pi * 2)\<rfloor> + 1)))" by simp
next
  fix b x :: real
  assume ge: "b \<le> x"
  have eq: "(x - pi * 2 - b) / (pi * 2) = (x - b) / (pi * 2) - 1"
    by (simp add: field_simps)
  have pos: "0 \<le> (x - b) / (pi * 2)" using ge by simp
  then have "0 \<le> \<lfloor>(x - b) / (pi * 2)\<rfloor>" by linarith
  then show "((b, x - pi * 2), (b, x)) \<in> measure (\<lambda>(b, x). nat (\<lfloor>(x - b) / (pi * 2)\<rfloor> + 1))"
    by (simp add: eq)
qed

declare whileAbove.simps [simp del] whileBelow.simps [simp del] whileAtLeast.simps [simp del]









subsection \<open>SailModule (SailModule.ts)\<close>

record sail =
  sailPosition :: point
  openness :: real
  angle :: real

definition newSail :: "point \<Rightarrow> sail" where
  "newSail pos = \<lparr> sailPosition = pos, openness = 0, angle = 0 \<rparr>"

definition setOpenness :: "real \<Rightarrow> sail \<Rightarrow> sail" where
  "setOpenness percent s = s\<lparr>openness := max 0 (min 100 percent)\<rparr>"

definition openSail :: "real \<Rightarrow> sail \<Rightarrow> sail" where
  "openSail increment s = setOpenness (openness s + increment) s"

definition closeSail :: "real \<Rightarrow> sail \<Rightarrow> sail" where
  "closeSail increment s = setOpenness (openness s - increment) s"

definition rotate :: "real \<Rightarrow> sail \<Rightarrow> sail" where
  "rotate degrees s = s\<lparr>angle := max (- 75) (min 75 (angle s + degrees))\<rparr>"

definition centerAngle :: "real \<Rightarrow> sail \<Rightarrow> sail" where
  "centerAngle increment s =
     (if angle s > 0 then s\<lparr>angle := max 0 (angle s - increment)\<rparr>
      else if angle s < 0 then s\<lparr>angle := min 0 (angle s + increment)\<rparr>
      else s)"

text \<open>
  \<^verbatim>\<open>calculateEfficiency(windDirection, shipAngle)\<close>, in the two halves the source computes
  one after the other: the angle between the wind and the sail's normal, in degrees, and
  the efficiency read off that angle and scaled by the openness.
\<close>

definition windSailAngleDegrees :: "real \<Rightarrow> real \<Rightarrow> real \<Rightarrow> real" where
  "windSailAngleDegrees windDirection shipAngle sailAngle =
     (let sailAngleRad = sailAngle * pi / 180;
          sailNormalAngle = shipAngle + sailAngleRad + pi / 2;
          sailNormalX = cos sailNormalAngle;
          sailNormalY = sin sailNormalAngle;
          windDirX = cos windDirection;
          windDirY = sin windDirection;
          dotProduct = windDirX * sailNormalX + windDirY * sailNormalY;
          windSailAngleDiff = arccos (min 1 (max (- 1) dotProduct))
      in windSailAngleDiff * 180 / pi)"

definition efficiencyAt :: "real \<Rightarrow> real \<Rightarrow> real" where
  "efficiencyAt angleDiffDegrees opennessPercent =
     (let efficiency = (if angleDiffDegrees \<le> 90 then 1.0 - (0.65 * angleDiffDegrees / 90)
                        else 0.35);
          sailOpenness = opennessPercent / 100
      in min 1 (max 0.35 efficiency) * sailOpenness)"

definition calculateEfficiency :: "real \<Rightarrow> real \<Rightarrow> sail \<Rightarrow> real" where
  "calculateEfficiency windDirection shipAngle s =
     efficiencyAt (windSailAngleDegrees windDirection shipAngle (angle s)) (openness s)"

text \<open>
  The term that one open sail adds to the total in \<^verbatim>\<open>Ship.calculateSailEfficiency\<close> (the
  same in both versions of the vessel class): the clamped efficiency, plus a bonus that
  depends on the trim only, times the openness.
\<close>

definition sailTermAt :: "real \<Rightarrow> real \<Rightarrow> real \<Rightarrow> real" where
  "sailTermAt angleDiffDegrees sailAngle opennessPercent =
     (let efficiency0 = (if angleDiffDegrees \<le> 90 then 1.0 - (0.65 * angleDiffDegrees / 90)
                         else 0.35);
          efficiency = min 1 (max 0.35 efficiency0);
          sailOpenness = opennessPercent / 100;
          angleBonus = (if efficiency > 0 then min 0.2 (\<bar>sailAngle\<bar> / 75 * 0.2) else 0)
      in (efficiency + angleBonus) * sailOpenness)"

subsection \<open>WheelModule (WheelModule.ts)\<close>

record wheel =
  wheelPosition :: point
  wheelAngle :: real
  isPlayerControlling :: bool

definition setWheelAngle :: "real \<Rightarrow> wheel \<Rightarrow> wheel" where
  "setWheelAngle degrees w = w\<lparr>wheelAngle := max (- 30) (min 30 degrees)\<rparr>"

subsection \<open>The physics body\<close>

text \<open>
  The vessel owns a rigid body of the physics library. Of the body the vessel code reads
  and writes the position, the angle, the velocity and the angular velocity, and it hands
  the library a force. The three library calls the vessel makes are modelled as the field
  writes the library documents: \<^verbatim>\<open>Body.setVelocity\<close> and \<^verbatim>\<open>Body.setAngularVelocity\<close> store
  their argument, \<^verbatim>\<open>Body.applyForce\<close> adds the force to the body's force accumulator and the
  moment of the force about the body's position to its torque accumulator.
\<close>

record body =
  bodyPosition :: point
  bodyAngle :: real
  velocity :: point
  angularVelocity :: real
  force :: point
  torque :: real

definition setVelocity :: "body \<Rightarrow> point \<Rightarrow> body" where
  "setVelocity b v = b\<lparr>velocity := v\<rparr>"

definition setAngularVelocity :: "body \<Rightarrow> real \<Rightarrow> body" where
  "setAngularVelocity b w = b\<lparr>angularVelocity := w\<rparr>"

definition applyForce :: "body \<Rightarrow> point \<Rightarrow> point \<Rightarrow> body" where
  "applyForce b pos f =
     b\<lparr>force := \<lparr>px = px (force b) + px f, py = py (force b) + py f\<rparr>,
       torque := torque b + ((px pos - px (bodyPosition b)) * py f
                             - (py pos - py (bodyPosition b)) * px f)\<rparr>"

text \<open>
  \<^verbatim>\<open>Math.atan2(y, x)\<close> on the reals (the two zeros of a double are one number here).
\<close>

definition atan2 :: "real \<Rightarrow> real \<Rightarrow> real" where
  "atan2 y x =
     (if x > 0 then arctan (y / x)
      else if x < 0 then (if y \<ge> 0 then arctan (y / x) + pi else arctan (y / x) - pi)
      else if y > 0 then pi / 2
      else if y < 0 then - (pi / 2)
      else 0)"

datatype direction = DirLeft | DirRight | DirCenter

subsection \<open>Ship, the version with typed module collections\<close>

record ship =
  shipPosition :: point
  shipBody :: body
  sails :: "(string \<times> sail) list"
  wheels :: "(string \<times> wheel) list"
  rudderAngle :: real
  momentum :: real
  forwardForce :: real
  turningForce :: real
  currentWindDirection :: real
  currentWindPower :: real
  isRotatingSails :: bool
  sailRotationTimer :: real

text \<open>
  The collections are JavaScript \<^verbatim>\<open>Map\<close>s, kept here as association lists in insertion
  order. \<^verbatim>\<open>Map.set\<close> replaces the value of a key that is present and appends a new key.
\<close>

fun mapSet :: "'k \<Rightarrow> 'v \<Rightarrow> ('k \<times> 'v) list \<Rightarrow> ('k \<times> 'v) list" where
  "mapSet k v [] = [(k, v)]"
| "mapSet k v ((k', v') # rest) =
     (if k' = k then (k, v) # rest else (k', v') # mapSet k v rest)"

definition forEachValue :: "('v \<Rightarrow> 'v) \<Rightarrow> ('k \<times> 'v) list \<Rightarrow> ('k \<times> 'v) list" where
  "forEachValue f m = map (\<lambda>(k, v). (k, f v)) m"

text \<open>The constructor, and \<^verbatim>\<open>addModule\<close> for a \<^verbatim>\<open>SailModule\<close> or a \<^verbatim>\<open>WheelModule\<close>.\<close>

definition newShip :: "real \<Rightarrow> real \<Rightarrow> ship" where
  "newShip x y =
     \<lparr> shipPosition = \<lparr>px = x, py = y\<rparr>,
       shipBody = \<lparr> bodyPosition = \<lparr>px = x, py = y\<rparr>, bodyAngle = 0,
                    velocity = \<lparr>px = 0, py = 0\<rparr>, angularVelocity = 0,
                    force = \<lparr>px = 0, py = 0\<rparr>, torque = 0 \<rparr>,
       sails = [], wheels = [], rudderAngle = 0, momentum = 0, forwardForce = 0,
       turningForce = 0, currentWindDirection = 0, currentWindPower = 0,
       isRotatingSails = False, sailRotationTimer = 0 \<rparr>"

definition addSail :: "string \<Rightarrow> sail \<Rightarrow> ship \<Rightarrow> ship" where
  "addSail ident sl s = s\<lparr>sails := mapSet ident sl (sails s)\<rparr>"

definition addWheel :: "string \<Rightarrow> wheel \<Rightarrow> ship \<Rightarrow> ship" where
  "addWheel ident w s = s\<lparr>wheels := mapSet ident w (wheels s)\<rparr>"

text \<open>
  \<^verbatim>\<open>applyRudder(direction)\<close>. Both versions of the class compute the change rate of the
  rudder from the speed and then turn the rudder in a \<^verbatim>\<open>switch\<close> on the direction; these two
  steps are \<open>rudderChangeRateAt\<close> and \<open>turnRudder\<close>.
\<close>

definition rudderChangeRateAt :: "real \<Rightarrow> real" where
  "rudderChangeRateAt currentSpeed =
     (let baseRudderChangeRate = 0.5;
          visualSpeedFactor = 0.5 + min 0.7 (currentSpeed / 3)
      in baseRudderChangeRate * visualSpeedFactor)"

definition turnRudder :: "direction \<Rightarrow> real \<Rightarrow> real \<Rightarrow> real" where
  "turnRudder dir rudderChangeRate rudder =
     (case dir of
        DirLeft \<Rightarrow> max (- 30) (rudder - rudderChangeRate)
      | DirRight \<Rightarrow> min 30 (rudder + rudderChangeRate)
      | DirCenter \<Rightarrow>
          if rudder > 0 then max 0 (rudder - rudderChangeRate)
          else if rudder < 0 then min 0 (rudder + rudderChangeRate)
          else rudder)"

definition applyRudder :: "direction \<Rightarrow> ship \<Rightarrow> ship" where
  "applyRudder dir s =
     (let v = velocity (shipBody s);
          currentSpeed = sqrt (px v ^ 2 + py v ^ 2);
          momentum' = min 1.0 (momentum s * 0.95 + currentSpeed * 0.01);
          rudderChangeRate = rudderChangeRateAt currentSpeed;
          rudder' = turnRudder dir rudderChangeRate (rudderAngle s);
          wheels' =
            (case wheels s of
               [] \<Rightarrow> []
             | (k, w) # rest \<Rightarrow> (k, setWheelAngle rudder' w) # rest);
          openSails = filter (\<lambda>sl. openness sl > 0) (map snd (sails s));
          sailPower = sum_list (map openness openSails);
          sailCount = real (length openSails);
          avgSailPower = (if sailCount > 0 then sailPower / (sailCount * 100) else 0);
          baseTurningPower = 0.000015;
          optimalSpeed = 2.0;
          speedDiff = \<bar>currentSpeed - optimalSpeed\<bar>;
          speedFactor = max 0.25 (min 1.0 (1.0 - (speedDiff / 3.0) ^ 2));
          momentumResistance = max 0.4 (1.0 - (momentum' * 0.6));
          turnEffectiveness = speedFactor * momentumResistance;
          minTurnFactor = 0.35;
          maxTurnFactor = 1.0;
          sailFactor = minTurnFactor + ((maxTurnFactor - minTurnFactor) * avgSailPower);
          turningForce' = rudder' * baseTurningPower * turnEffectiveness * sailFactor;
          body' =
            (if currentSpeed > 0.05 \<or> avgSailPower > 0
             then setAngularVelocity (shipBody s) (angularVelocity (shipBody s) + turningForce')
             else shipBody s)
      in s\<lparr>momentum := momentum', rudderAngle := rudder', wheels := wheels',
            turningForce := turningForce', shipBody := body',
            shipPosition := bodyPosition body'\<rparr>)"

text \<open>\<^verbatim>\<open>calculateSailEfficiency()\<close>: the average of the terms of the open sails.\<close>

definition calculateSailEfficiency :: "ship \<Rightarrow> real" where
  "calculateSailEfficiency s =
     (let openSails = filter (\<lambda>sl. openness sl > 0) (map snd (sails s));
          totalEfficiency =
            sum_list (map (\<lambda>sl. sailTermAt
                                   (windSailAngleDegrees (currentWindDirection s)
                                      (bodyAngle (shipBody s)) (angle sl))
                                   (angle sl) (openness sl)) openSails);
          sailCount = real (length openSails)
      in if sailCount > 0 then max 0.2 (min 1.5 (totalEfficiency / sailCount)) else 0)"

text \<open>\<^verbatim>\<open>rotateSails(direction)\<close>.\<close>

definition rotateSails :: "direction \<Rightarrow> ship \<Rightarrow> ship" where
  "rotateSails dir s =
     (let rotationRate = 1.25;
          currentVelocity = \<lparr>px = px (velocity (shipBody s)), py = py (velocity (shipBody s))\<rparr>;
          s1 = s\<lparr>isRotatingSails := True, sailRotationTimer := 10\<rparr>;
          s2 = s1\<lparr>sails := forEachValue
                   (\<lambda>sl. case dir of
                            DirLeft \<Rightarrow> rotate (- rotationRate) sl
                          | DirRight \<Rightarrow> rotate rotationRate sl
                          | DirCenter \<Rightarrow> centerAngle rotationRate sl) (sails s1)\<rparr>
      in s2\<lparr>shipBody := setVelocity (shipBody s2) currentVelocity\<rparr>)"

text \<open>\<^verbatim>\<open>adjustSails(openPercent)\<close>, \<^verbatim>\<open>openSails()\<close> and \<^verbatim>\<open>closeSails()\<close>.\<close>

definition adjustSails :: "real \<Rightarrow> ship \<Rightarrow> ship" where
  "adjustSails openPercent s = s\<lparr>sails := forEachValue (setOpenness openPercent) (sails s)\<rparr>"

definition openSails :: "ship \<Rightarrow> ship" where
  "openSails s = s\<lparr>sails := forEachValue (openSail 10) (sails s)\<rparr>"

definition closeSails :: "ship \<Rightarrow> ship" where
  "closeSails s = s\<lparr>sails := forEachValue (closeSail 10) (sails s)\<rparr>"

text \<open>
  \<^verbatim>\<open>applyWindForce(windDirection, windPower)\<close> stores the wind and applies the drag
  (\<open>applyDrag\<close>), then, when a sail is open, computes the thrust and hands the force vector
  to the physics library. \<open>windForceVector\<close> computes the new \<^verbatim>\<open>forwardForce\<close> and that
  vector from the vessel as it is after the drag; it is \<open>None\<close> when no sail is open and
  the library is not called.
\<close>

definition windForceVector :: "ship \<Rightarrow> real \<Rightarrow> real \<Rightarrow> (real \<times> point) option" where
  "windForceVector s windDirection windPower =
     (let allSails = map snd (sails s);
          totalSailOpenness = sum_list (map openness allSails);
          sailCount = real (length allSails);
          sailsAreOpen = list_ex (\<lambda>sl. openness sl > 0) allSails;
          avgSailOpenness = (if sailCount > 0 then totalSailOpenness / sailCount else 0)
      in if \<not> sailsAreOpen then None
         else
           let sailEfficiency = calculateSailEfficiency s;
               windDirectionX = cos windDirection;
               windDirectionY = sin windDirection;
               shipDirectionX = cos (bodyAngle (shipBody s));
               shipDirectionY = sin (bodyAngle (shipBody s));
               relativeWindAngle =
                 atan2 (windDirectionY * shipDirectionX - windDirectionX * shipDirectionY)
                       (windDirectionX * shipDirectionX + windDirectionY * shipDirectionY);
               minEfficiency = 0.40;
               baseEfficiency = max minEfficiency sailEfficiency;
               opennessFactor = avgSailOpenness / 100;
               constantWindBase = 0.8;
               windForceFactor = 0.08;
               forwardForce' =
                 (constantWindBase + windPower) * baseEfficiency * windForceFactor
                   * opennessFactor;
               absRelativeAngle = \<bar>relativeWindAngle\<bar>;
               angleDiffDegrees = absRelativeAngle * 180 / pi;
               alignmentFactor0 =
                 (if angleDiffDegrees \<le> 90 then 1.0 - (0.55 * angleDiffDegrees / 90)
                  else 0.45 * max 0 (1 - (angleDiffDegrees - 90) / 90));
               alignmentFactor = max 0.15 alignmentFactor0;
               finalForce = (if sailEfficiency > 0 then forwardForce' * alignmentFactor else 0)
           in Some (forwardForce',
                    \<lparr>px = shipDirectionX * finalForce, py = shipDirectionY * finalForce\<rparr>))"

definition applyDrag :: "real \<Rightarrow> real \<Rightarrow> ship \<Rightarrow> ship" where
  "applyDrag windDirection windPower s =
     (let s1 = s\<lparr>currentWindDirection := windDirection, currentWindPower := windPower\<rparr>;
          allSails = map snd (sails s1);
          totalSailOpenness = sum_list (map openness allSails);
          sailCount = real (length allSails);
          sailsAreOpen = list_ex (\<lambda>sl. openness sl > 0) allSails;
          avgSailOpenness = (if sailCount > 0 then totalSailOpenness / sailCount else 0);
          momentumFactor = min 0.05 (momentum s1 * 0.05);
          dragFactor = (if sailsAreOpen
                        then 0.85 + (avgSailOpenness / 100) * 0.13 + momentumFactor
                        else 0.85);
          b1 = setVelocity (shipBody s1)
                 \<lparr>px = px (velocity (shipBody s1)) * dragFactor,
                  py = py (velocity (shipBody s1)) * dragFactor\<rparr>;
          s2 = s1\<lparr>shipBody := b1\<rparr>
      in if \<not> sailsAreOpen \<and> \<bar>px (velocity b1)\<bar> < 0.05 \<and> \<bar>py (velocity b1)\<bar> < 0.05
         then s2\<lparr>shipBody := setVelocity b1 \<lparr>px = 0, py = 0\<rparr>, momentum := 0\<rparr>
         else s2)"

definition applyWindForce :: "real \<Rightarrow> real \<Rightarrow> ship \<Rightarrow> ship" where
  "applyWindForce windDirection windPower s =
     (let s3 = applyDrag windDirection windPower s
      in case windForceVector s3 windDirection windPower of
           None \<Rightarrow> s3
         | Some (forwardForce', forceVector) \<Rightarrow>
             s3\<lparr>forwardForce := forwardForce',
                shipBody := applyForce (shipBody s3) (bodyPosition (shipBody s3)) forceVector\<rparr>)"

subsection \<open>Ship, the version with generic modules\<close>

text \<open>
  The older \<^verbatim>\<open>Ship\<close> class keeps every module as a \<^verbatim>\<open>ShipModule\<close> object whose \<^verbatim>\<open>openness\<close>
  and \<^verbatim>\<open>angle\<close> may be undefined. Its definitions carry the suffix \<open>_legacy\<close> where the name
  is shared with the typed version.
\<close>

datatype moduleType = Cannon | Sail | Wheel | Plank

record shipModule =
  mtype :: moduleType
  mposition :: point
  mrotation :: real
  mhealth :: real
  mopenness :: "real option"
  mangle :: "real option"

text \<open>\<^verbatim>\<open>v || 0\<close> for an optional number.\<close>

definition orZero :: "real option \<Rightarrow> real" where
  "orZero v = (case v of None \<Rightarrow> 0 | Some x \<Rightarrow> x)"

record legacyShip =
  position_legacy :: point
  body_legacy :: body
  modules :: "(string \<times> shipModule) list"
  moduleVisualPositions :: "(string \<times> point) list"
  rudderAngle_legacy :: real
  momentum_legacy :: real
  forwardForce_legacy :: real
  turningForce_legacy :: real
  currentWindDirection_legacy :: real
  currentWindPower_legacy :: real

text \<open>The shared hull and fixture tables.\<close>

definition bow :: point where "bow = \<lparr>px = 190, py = 90\<rparr>"
definition bowTip :: point where "bowTip = \<lparr>px = 415, py = 0\<rparr>"
definition bowBottom :: point where "bowBottom = \<lparr>px = 190, py = - 90\<rparr>"
definition sternBottom :: point where "sternBottom = \<lparr>px = - 260, py = - 90\<rparr>"
definition sternTip :: point where "sternTip = \<lparr>px = - 345, py = 0\<rparr>"
definition stern :: point where "stern = \<lparr>px = - 260, py = 90\<rparr>"

record mast =
  mastX :: real
  mastY :: real
  mastR :: real

record fixture =
  fixX :: real
  fixY :: real
  fixW :: real
  fixH :: real

definition MASTS :: "mast list" where
  "MASTS = [\<lparr>mastX = 165, mastY = 0, mastR = 30\<rparr>,
            \<lparr>mastX = - 35, mastY = 0, mastR = 30\<rparr>,
            \<lparr>mastX = - 235, mastY = 0, mastR = 30\<rparr>]"

definition WHEEL :: fixture where
  "WHEEL = \<lparr>fixX = - 90, fixY = 0, fixW = 20, fixH = 40\<rparr>"

definition CANNONS :: "fixture list" where
  "CANNONS = [\<lparr>fixX = - 35, fixY = 75, fixW = 30, fixH = 30\<rparr>,
              \<lparr>fixX = 65, fixY = 75, fixW = 30, fixH = 30\<rparr>,
              \<lparr>fixX = - 135, fixY = 75, fixW = 30, fixH = 30\<rparr>,
              \<lparr>fixX = - 35, fixY = - 75, fixW = 30, fixH = 30\<rparr>,
              \<lparr>fixX = 65, fixY = - 75, fixW = 30, fixH = 30\<rparr>,
              \<lparr>fixX = - 135, fixY = - 75, fixW = 30, fixH = 30\<rparr>]"

text \<open>
  \<^verbatim>\<open>createHullPath()\<close> builds the closed path: from \<open>bow\<close> a quadratic curve with control
  point \<open>bowTip\<close> to \<open>(bow.x, bowBottom.y)\<close>, a line to \<open>sternBottom\<close>, a quadratic curve
  with control point \<open>sternTip\<close> to \<open>stern\<close>, and the closing line back to \<open>bow\<close>.
\<close>

datatype pathCommand =
    MoveTo point
  | QuadraticCurveTo point point
  | LineTo point
  | ClosePath

definition createHullPath :: "pathCommand list" where
  "createHullPath =
     [MoveTo bow,
      QuadraticCurveTo bowTip \<lparr>px = px bow, py = py bowBottom\<rparr>,
      LineTo sternBottom,
      QuadraticCurveTo sternTip stern,
      ClosePath]"

text \<open>
  The point at parameter \<open>t\<close> of the quadratic curve from \<open>p0\<close> to \<open>p2\<close> with control point
  \<open>p1\<close>, as the canvas draws it.
\<close>

definition quadAt :: "point \<Rightarrow> point \<Rightarrow> point \<Rightarrow> real \<Rightarrow> point" where
  "quadAt p0 p1 p2 t =
     \<lparr>px = (1 - t) ^ 2 * px p0 + 2 * (1 - t) * t * px p1 + t ^ 2 * px p2,
      py = (1 - t) ^ 2 * py p0 + 2 * (1 - t) * t * py p1 + t ^ 2 * py p2\<rparr>"

text \<open>
  \<^verbatim>\<open>ctx.isPointInPath(this.path, x, y)\<close> belongs to the browser. On the hull path it is
  modelled as membership in the closed region the path bounds, the outline included: both
  curves of the path run once through every height between -90 and 90 (the height is
  linear in the curve parameter), so the region is the set of points at such a height
  lying between the stern curve and the bow curve. \<open>sternEdge\<close> and \<open>bowEdge\<close> give the
  \<open>x\<close> of the two curves at a height.
\<close>

definition bowEdge :: "real \<Rightarrow> real" where
  "bowEdge y = px (quadAt bow bowTip \<lparr>px = px bow, py = py bowBottom\<rparr> ((90 - y) / 180))"

definition sternEdge :: "real \<Rightarrow> real" where
  "sternEdge y = px (quadAt sternBottom sternTip stern ((y + 90) / 180))"

definition isPointInHullPath :: "real \<Rightarrow> real \<Rightarrow> bool" where
  "isPointInHullPath x y = (- 90 \<le> y \<and> y \<le> 90 \<and> sternEdge y \<le> x \<and> x \<le> bowEdge y)"

text \<open>
  The hull test of \<^verbatim>\<open>isPositionOnDeck\<close> when no drawing context is passed, in the older
  class (the analytic outline) and in the typed class (the bounding box).
\<close>

definition analyticHull :: "real \<Rightarrow> real \<Rightarrow> bool" where
  "analyticHull rotatedX rotatedY =
     (rotatedX \<ge> - 300 \<and> rotatedX \<le> 320 \<and>
      rotatedY \<ge> - 90 \<and> rotatedY \<le> 90 \<and>
      \<not> (rotatedX > 150 \<and> \<bar>rotatedY\<bar> > 90 * (1 - ((rotatedX - 150) / 175) ^ 2)) \<and>
      \<not> (rotatedX < - 220 \<and> \<bar>rotatedY\<bar> > 90 * (1 - ((\<bar>rotatedX\<bar> - 220) / 85) ^ 2)))"

definition boundingBoxHull :: "real \<Rightarrow> real \<Rightarrow> bool" where
  "boundingBoxHull rotatedX rotatedY =
     (\<not> (rotatedX < - 345 \<or> rotatedX > 415 \<or> rotatedY < - 90 \<or> rotatedY > 90))"

definition hullTest_legacy :: "bool \<Rightarrow> real \<Rightarrow> real \<Rightarrow> bool" where
  "hullTest_legacy ctx rotatedX rotatedY =
     (if ctx then isPointInHullPath rotatedX rotatedY else analyticHull rotatedX rotatedY)"

definition hullTest :: "bool \<Rightarrow> bool \<Rightarrow> real \<Rightarrow> real \<Rightarrow> bool" where
  "hullTest path ctx rotatedX rotatedY =
     (if path \<and> ctx then isPointInHullPath rotatedX rotatedY
      else boundingBoxHull rotatedX rotatedY)"

text \<open>
  \<^verbatim>\<open>ensureModuleVisualPosition\<close> records the module's position as its visual position and
  then snaps the module to a matching fixture; \<^verbatim>\<open>addModule\<close> stores the module after that.
\<close>

definition snapToFixture :: "shipModule \<Rightarrow> shipModule" where
  "snapToFixture m =
     (if mtype m = Wheel \<and> fixX WHEEL = px (mposition m) \<and> fixY WHEEL = py (mposition m)
      then m\<lparr>mposition := \<lparr>px = fixX WHEEL, py = fixY WHEEL\<rparr>\<rparr>
      else if mtype m = Sail then
        (case find (\<lambda>mast. \<bar>mastX mast - px (mposition m)\<bar> < 20
                            \<and> \<bar>mastY mast - py (mposition m)\<bar> < 20) MASTS of
           Some mast \<Rightarrow> m\<lparr>mposition := \<lparr>px = mastX mast, py = mastY mast\<rparr>\<rparr>
         | None \<Rightarrow> m)
      else if mtype m = Cannon then
        (case find (\<lambda>c. \<bar>fixX c - px (mposition m)\<bar> < 20
                         \<and> \<bar>fixY c - py (mposition m)\<bar> < 20) CANNONS of
           Some c \<Rightarrow> m\<lparr>mposition := \<lparr>px = fixX c, py = fixY c\<rparr>\<rparr>
         | None \<Rightarrow> m)
      else m)"

definition addModule :: "string \<Rightarrow> shipModule \<Rightarrow> legacyShip \<Rightarrow> legacyShip" where
  "addModule ident m s =
     s\<lparr>moduleVisualPositions := mapSet ident (mposition m) (moduleVisualPositions s),
       modules := mapSet ident (snapToFixture m) (modules s)\<rparr>"

definition getModuleVisualPosition :: "legacyShip \<Rightarrow> string \<Rightarrow> point" where
  "getModuleVisualPosition s ident =
     (case map_of (moduleVisualPositions s) ident of
        Some p \<Rightarrow> p
      | None \<Rightarrow>
          (case map_of (modules s) ident of
             Some m \<Rightarrow> mposition m
           | None \<Rightarrow> \<lparr>px = 0, py = 0\<rparr>))"

definition newLegacyShip :: "real \<Rightarrow> real \<Rightarrow> legacyShip" where
  "newLegacyShip x y =
     \<lparr> position_legacy = \<lparr>px = x, py = y\<rparr>,
       body_legacy = \<lparr> bodyPosition = \<lparr>px = x, py = y\<rparr>, bodyAngle = 0,
                       velocity = \<lparr>px = 0, py = 0\<rparr>, angularVelocity = 0,
                       force = \<lparr>px = 0, py = 0\<rparr>, torque = 0 \<rparr>,
       modules = [], moduleVisualPositions = [], rudderAngle_legacy = 0,
       momentum_legacy = 0, forwardForce_legacy = 0, turningForce_legacy = 0,
       currentWindDirection_legacy = 0, currentWindPower_legacy = 0 \<rparr>"

text \<open>
  \<^verbatim>\<open>isPositionOnDeck(x, y, ctx?)\<close>; \<open>ctx\<close> says whether a drawing context was passed. The
  test on the local point is \<open>localPointOnDeck\<close>.
\<close>

definition isStaticObstacle :: "shipModule \<Rightarrow> bool" where
  "isStaticObstacle m =
     ((mtype m = Wheel \<and> px (mposition m) = fixX WHEEL \<and> py (mposition m) = fixY WHEEL) \<or>
      (mtype m = Cannon \<and>
       list_ex (\<lambda>c. fixX c = px (mposition m) \<and> fixY c = py (mposition m)) CANNONS))"

definition inModuleBox :: "point \<Rightarrow> real \<Rightarrow> real \<Rightarrow> bool" where
  "inModuleBox visualPos rotatedX rotatedY =
     (let moduleSize = 20
      in rotatedX > px visualPos - moduleSize / 2 \<and> rotatedX < px visualPos + moduleSize / 2 \<and>
         rotatedY > py visualPos - moduleSize / 2 \<and> rotatedY < py visualPos + moduleSize / 2)"

definition localPointOnDeck :: "legacyShip \<Rightarrow> bool \<Rightarrow> real \<Rightarrow> real \<Rightarrow> bool" where
  "localPointOnDeck s ctx rotatedX rotatedY =
     (if \<not> hullTest_legacy ctx rotatedX rotatedY then False
      else if list_ex (\<lambda>mast. (rotatedX - mastX mast) * (rotatedX - mastX mast)
                              + (rotatedY - mastY mast) * (rotatedY - mastY mast)
                              < mastR mast * mastR mast) MASTS then False
      else if rotatedX > fixX WHEEL - fixW WHEEL / 2 \<and> rotatedX < fixX WHEEL + fixW WHEEL / 2 \<and>
              rotatedY > fixY WHEEL - fixH WHEEL / 2 \<and> rotatedY < fixY WHEEL + fixH WHEEL / 2
           then False
      else if list_ex (\<lambda>c. rotatedX > fixX c - fixW c / 2 \<and> rotatedX < fixX c + fixW c / 2 \<and>
                           rotatedY > fixY c - fixH c / 2 \<and> rotatedY < fixY c + fixH c / 2)
                CANNONS then False
      else if list_ex (\<lambda>(ident, m). \<not> isStaticObstacle m \<and>
                         inModuleBox (getModuleVisualPosition s ident) rotatedX rotatedY)
                (modules s) then False
      else True)"

definition isPositionOnDeck :: "legacyShip \<Rightarrow> real \<Rightarrow> real \<Rightarrow> bool \<Rightarrow> bool" where
  "isPositionOnDeck s x y ctx =
     (let localX = x - px (position_legacy s);
          localY = y - py (position_legacy s);
          cosA = cos (- bodyAngle (body_legacy s));
          sinA = sin (- bodyAngle (body_legacy s));
          rotatedX = localX * cosA - localY * sinA;
          rotatedY = localX * sinA + localY * cosA
      in localPointOnDeck s ctx rotatedX rotatedY)"

text \<open>
  \<^verbatim>\<open>findSafeDismountPosition(startX, startY, ctx?)\<close>. The two nested \<^verbatim>\<open>for\<close> loops try the
  candidates ring by ring and return at the first one on deck. \<open>dismountCandidate\<close> is the
  world point that the loop body tests at ring \<open>inc\<close> and direction \<open>i\<close>;
  \<open>dismountCandidates\<close> lists the candidates in the order of the loops, \<open>inc\<close> from 1 to 5
  outside and \<open>i\<close> from 0 to 7 inside.
\<close>

definition dismountCandidate :: "legacyShip \<Rightarrow> real \<Rightarrow> real \<Rightarrow> nat \<Rightarrow> nat \<Rightarrow> point" where
  "dismountCandidate s startX startY inc i =
     (let localX = startX - px (position_legacy s);
          localY = startY - py (position_legacy s);
          cosA = cos (- bodyAngle (body_legacy s));
          sinA = sin (- bodyAngle (body_legacy s));
          rotatedX = localX * cosA - localY * sinA;
          rotatedY = localX * sinA + localY * cosA;
          searchRadius = 60;
          steps = 8;
          increments = 5;
          stepDistance = (searchRadius * real inc) / increments;
          a = (real i / steps) * pi * 2;
          testLocalX = rotatedX + cos a * stepDistance;
          testLocalY = rotatedY + sin a * stepDistance;
          testWorldX = px (position_legacy s) + testLocalX * cos (bodyAngle (body_legacy s))
                         - testLocalY * sin (bodyAngle (body_legacy s));
          testWorldY = py (position_legacy s) + testLocalX * sin (bodyAngle (body_legacy s))
                         + testLocalY * cos (bodyAngle (body_legacy s))
      in \<lparr>px = testWorldX, py = testWorldY\<rparr>)"

definition dismountCandidates :: "legacyShip \<Rightarrow> real \<Rightarrow> real \<Rightarrow> point list" where
  "dismountCandidates s startX startY =
     concat (map (\<lambda>inc. map (\<lambda>i. dismountCandidate s startX startY inc i) [0 ..< 8])
                 [1 ..< 5 + 1])"

definition findSafeDismountPosition :: "legacyShip \<Rightarrow> real \<Rightarrow> real \<Rightarrow> bool \<Rightarrow> point" where
  "findSafeDismountPosition s startX startY ctx =
     (if isPositionOnDeck s startX startY ctx then \<lparr>px = startX, py = startY\<rparr>
      else
        (case find (\<lambda>p. isPositionOnDeck s (px p) (py p) ctx)
                (dismountCandidates s startX startY) of
           Some p \<Rightarrow> p
         | None \<Rightarrow> \<lparr>px = px (position_legacy s), py = py (position_legacy s)\<rparr>))"

text \<open>
  Whether a mounted module that is not one of the fixed fixtures has its box over the
  vessel's own centre, the local point (0, 0).
\<close>

definition centerBlocked :: "legacyShip \<Rightarrow> bool" where
  "centerBlocked s =
     list_ex (\<lambda>(ident, m). \<not> isStaticObstacle m \<and>
                inModuleBox (getModuleVisualPosition s ident) 0 0) (modules s)"

text \<open>A vessel at the origin with a fourth sail mounted on its centre.\<close>

definition blockedShip :: legacyShip where
  "blockedShip =
     addModule ''sail4''
       \<lparr>mtype = Sail, mposition = \<lparr>px = 0, py = 0\<rparr>, mrotation = 0, mhealth = 100,
        mopenness = Some 0, mangle = Some 0\<rparr>
       (newLegacyShip 0 0)"

text \<open>
  A fitted vessel at (100, 50): sails on the three masts, the wheel and a cannon on their
  fixtures, and a crate mounted at the local point (40, 30), which matches no fixture.
\<close>

definition fittedLegacyShip :: legacyShip where
  "fittedLegacyShip =
     addModule ''crate''
       \<lparr>mtype = Plank, mposition = \<lparr>px = 40, py = 30\<rparr>, mrotation = 0, mhealth = 100,
        mopenness = None, mangle = None\<rparr>
     (addModule ''cannon1''
       \<lparr>mtype = Cannon, mposition = \<lparr>px = - 35, py = 75\<rparr>, mrotation = pi, mhealth = 100,
        mopenness = None, mangle = None\<rparr>
     (addModule ''wheel''
       \<lparr>mtype = Wheel, mposition = \<lparr>px = - 90, py = 0\<rparr>, mrotation = 0, mhealth = 100,
        mopenness = None, mangle = None\<rparr>
     (addModule ''sail3''
       \<lparr>mtype = Sail, mposition = \<lparr>px = - 235, py = 0\<rparr>, mrotation = 0, mhealth = 100,
        mopenness = Some 0, mangle = Some 0\<rparr>
     (addModule ''sail2''
       \<lparr>mtype = Sail, mposition = \<lparr>px = - 35, py = 0\<rparr>, mrotation = 0, mhealth = 100,
        mopenness = Some 0, mangle = Some 0\<rparr>
     (addModule ''sail1''
       \<lparr>mtype = Sail, mposition = \<lparr>px = 165, py = 0\<rparr>, mrotation = 0, mhealth = 100,
        mopenness = Some 0, mangle = Some 0\<rparr>
     (newLegacyShip 100 50))))))"

subsection \<open>The older class: rudder, sails and wind\<close>

definition isOpenSail :: "shipModule \<Rightarrow> bool" where
  "isOpenSail m = (mtype m = Sail \<and> (case mopenness m of None \<Rightarrow> False | Some v \<Rightarrow> v > 0))"

definition applyRudder_legacy :: "direction \<Rightarrow> legacyShip \<Rightarrow> legacyShip" where
  "applyRudder_legacy dir s =
     (let v = velocity (body_legacy s);
          currentSpeed = sqrt (px v ^ 2 + py v ^ 2);
          momentum' = min 1.0 (momentum_legacy s * 0.95 + currentSpeed * 0.01);
          rudderChangeRate = rudderChangeRateAt currentSpeed;
          rudder' = turnRudder dir rudderChangeRate (rudderAngle_legacy s);
          openSails = filter isOpenSail (map snd (modules s));
          sailPower = sum_list (map (\<lambda>m. orZero (mopenness m)) openSails);
          sailCount = real (length openSails);
          avgSailPower = (if sailCount > 0 then sailPower / (sailCount * 100) else 0);
          baseTurningPower = 0.000015;
          turnEffectiveness = max 0.3 (1 - (momentum' * 0.7));
          sailFactor = 0.3 + 0.7 * avgSailPower;
          turningForce' = rudder' * baseTurningPower * turnEffectiveness * sailFactor;
          body' =
            (if currentSpeed > 0.05 \<or> avgSailPower > 0
             then setAngularVelocity (body_legacy s)
                    (angularVelocity (body_legacy s) + turningForce')
             else body_legacy s)
      in s\<lparr>momentum_legacy := momentum', rudderAngle_legacy := rudder',
            turningForce_legacy := turningForce', body_legacy := body',
            position_legacy := bodyPosition body'\<rparr>)"

definition forEachSail :: "(shipModule \<Rightarrow> shipModule) \<Rightarrow> legacyShip \<Rightarrow> legacyShip" where
  "forEachSail f s =
     s\<lparr>modules := forEachValue (\<lambda>m. if mtype m = Sail then f m else m) (modules s)\<rparr>"

definition rotateSails_legacy :: "direction \<Rightarrow> legacyShip \<Rightarrow> legacyShip" where
  "rotateSails_legacy dir s =
     (let rotationRate = 1.25
      in forEachSail
           (\<lambda>m. let a = (case mangle m of None \<Rightarrow> 0 | Some a \<Rightarrow> a)
                 in m\<lparr>mangle := Some
                        (case dir of
                           DirLeft \<Rightarrow> max (- 75) (a - rotationRate)
                         | DirRight \<Rightarrow> min 75 (a + rotationRate)
                         | DirCenter \<Rightarrow>
                             if a > 0 then max 0 (a - rotationRate)
                             else if a < 0 then min 0 (a + rotationRate)
                             else a)\<rparr>) s)"

definition adjustSails_legacy :: "real \<Rightarrow> legacyShip \<Rightarrow> legacyShip" where
  "adjustSails_legacy openPercent s =
     forEachSail (\<lambda>m. m\<lparr>mopenness := Some (max 0 (min 100 openPercent))\<rparr>) s"

definition openSails_legacy :: "legacyShip \<Rightarrow> legacyShip" where
  "openSails_legacy s =
     forEachSail (\<lambda>m. case mopenness m of
                         None \<Rightarrow> m
                       | Some v \<Rightarrow> m\<lparr>mopenness := Some (min 100 (v + 10))\<rparr>) s"

definition closeSails_legacy :: "legacyShip \<Rightarrow> legacyShip" where
  "closeSails_legacy s =
     forEachSail (\<lambda>m. case mopenness m of
                         None \<Rightarrow> m
                       | Some v \<Rightarrow> m\<lparr>mopenness := Some (max 0 (v - 10))\<rparr>) s"

definition calculateSailEfficiency_legacy :: "legacyShip \<Rightarrow> real" where
  "calculateSailEfficiency_legacy s =
     (let openSails = filter (\<lambda>m. mtype m = Sail \<and> orZero (mopenness m) > 0)
                        (map snd (modules s));
          totalEfficiency =
            sum_list (map (\<lambda>m. sailTermAt
                                  (windSailAngleDegrees (currentWindDirection_legacy s)
                                     (bodyAngle (body_legacy s)) (orZero (mangle m)))
                                  (orZero (mangle m)) (orZero (mopenness m))) openSails);
          sailCount = real (length openSails)
      in if sailCount > 0 then min 1.5 (totalEfficiency / sailCount) else 0)"

definition windForceVector_legacy :: "legacyShip \<Rightarrow> real \<Rightarrow> real \<Rightarrow> (real \<times> point) option"
  where
  "windForceVector_legacy s windDirection windPower =
     (let sailModules = filter (\<lambda>m. mtype m = Sail) (map snd (modules s));
          sailsAreOpen = list_ex (\<lambda>m. orZero (mopenness m) > 0) sailModules
      in if \<not> sailsAreOpen then None
         else
           let sailEfficiency = calculateSailEfficiency_legacy s;
               windDirectionX = cos windDirection;
               windDirectionY = sin windDirection;
               shipDirectionX = cos (bodyAngle (body_legacy s));
               shipDirectionY = sin (bodyAngle (body_legacy s));
               relativeWindAngle =
                 atan2 (windDirectionY * shipDirectionX - windDirectionX * shipDirectionY)
                       (windDirectionX * shipDirectionX + windDirectionY * shipDirectionY);
               forwardForce' = windPower * sailEfficiency * 0.024;
               absRelativeAngle = \<bar>relativeWindAngle\<bar>;
               angleDiffDegrees = absRelativeAngle * 180 / pi;
               alignmentFactor0 =
                 (if angleDiffDegrees \<le> 90 then 1.0 - (0.65 * angleDiffDegrees / 90)
                  else 0.35 * max 0 (1 - ((angleDiffDegrees - 90) / 90)));
               alignmentFactor = max 0.1 alignmentFactor0;
               effectiveForce =
                 (if sailEfficiency > 0 then forwardForce' * alignmentFactor else 0)
           in Some (forwardForce',
                    \<lparr>px = shipDirectionX * effectiveForce,
                     py = shipDirectionY * effectiveForce\<rparr>))"

definition applyDrag_legacy :: "real \<Rightarrow> real \<Rightarrow> legacyShip \<Rightarrow> legacyShip" where
  "applyDrag_legacy windDirection windPower s =
     (let s1 = s\<lparr>currentWindDirection_legacy := windDirection,
                  currentWindPower_legacy := windPower\<rparr>;
          sailModules = filter (\<lambda>m. mtype m = Sail) (map snd (modules s1));
          totalSailOpenness = sum_list (map (\<lambda>m. orZero (mopenness m)) sailModules);
          sailCount = real (length sailModules);
          sailsAreOpen = list_ex (\<lambda>m. orZero (mopenness m) > 0) sailModules;
          avgSailOpenness = (if sailCount > 0 then totalSailOpenness / sailCount else 0);
          momentumFactor = min 0.05 (momentum_legacy s1 * 0.05);
          dragFactor = (if sailsAreOpen
                        then 0.85 + (avgSailOpenness / 100) * 0.13 + momentumFactor
                        else 0.85);
          b1 = setVelocity (body_legacy s1)
                 \<lparr>px = px (velocity (body_legacy s1)) * dragFactor,
                  py = py (velocity (body_legacy s1)) * dragFactor\<rparr>;
          s2 = s1\<lparr>body_legacy := b1\<rparr>
      in if \<not> sailsAreOpen \<and> \<bar>px (velocity b1)\<bar> < 0.05 \<and> \<bar>py (velocity b1)\<bar> < 0.05
         then s2\<lparr>body_legacy := setVelocity b1 \<lparr>px = 0, py = 0\<rparr>, momentum_legacy := 0\<rparr>
         else s2)"

definition applyWindForce_legacy :: "real \<Rightarrow> real \<Rightarrow> legacyShip \<Rightarrow> legacyShip" where
  "applyWindForce_legacy windDirection windPower s =
     (let s3 = applyDrag_legacy windDirection windPower s
      in case windForceVector_legacy s3 windDirection windPower of
           None \<Rightarrow> s3
         | Some (forwardForce', forceVector) \<Rightarrow>
             s3\<lparr>forwardForce_legacy := forwardForce',
                body_legacy := applyForce (body_legacy s3) (bodyPosition (body_legacy s3))
                                 forceVector\<rparr>)"

subsection \<open>Sequences of operations\<close>

text \<open>
  The mutating operations a caller has on the vessel and on its sails. An operation on a
  sail names the sail by its key in the vessel's collection; on a key that is absent
  nothing happens.
\<close>

datatype operation =
    ApplyRudder direction
  | RotateSails direction
  | AdjustSails real
  | OpenSails
  | CloseSails
  | SailSetOpenness string real
  | SailOpen string real
  | SailClose string real
  | SailRotate string real
  | SailCenterAngle string real

definition onSail :: "string \<Rightarrow> (sail \<Rightarrow> sail) \<Rightarrow> ship \<Rightarrow> ship" where
  "onSail ident f s =
     s\<lparr>sails := map (\<lambda>(k, sl). if k = ident then (k, f sl) else (k, sl)) (sails s)\<rparr>"

fun perform :: "operation \<Rightarrow> ship \<Rightarrow> ship" where
  "perform (ApplyRudder dir) s = applyRudder dir s"
| "perform (RotateSails dir) s = rotateSails dir s"
| "perform (AdjustSails p) s = adjustSails p s"
| "perform OpenSails s = openSails s"
| "perform CloseSails s = closeSails s"
| "perform (SailSetOpenness k p) s = onSail k (setOpenness p) s"
| "perform (SailOpen k i) s = onSail k (openSail i) s"
| "perform (SailClose k i) s = onSail k (closeSail i) s"
| "perform (SailRotate k d) s = onSail k (rotate d) s"
| "perform (SailCenterAngle k i) s = onSail k (centerAngle i) s"

fun performAll :: "operation list \<Rightarrow> ship \<Rightarrow> ship" where
  "performAll [] s = s"
| "performAll (operation # rest) s = performAll rest (perform operation s)"

datatype operation_legacy =
    ApplyRudderL direction
  | RotateSailsL direction
  | AdjustSailsL real
  | OpenSailsL
  | CloseSailsL

fun perform_legacy :: "operation_legacy \<Rightarrow> legacyShip \<Rightarrow> legacyShip" where
  "perform_legacy (ApplyRudderL dir) s = applyRudder_legacy dir s"
| "perform_legacy (RotateSailsL dir) s = rotateSails_legacy dir s"
| "perform_legacy (AdjustSailsL p) s = adjustSails_legacy p s"
| "perform_legacy OpenSailsL s = openSails_legacy s"
| "perform_legacy CloseSailsL s = closeSails_legacy s"

fun performAll_legacy :: "operation_legacy list \<Rightarrow> legacyShip \<Rightarrow> legacyShip" where
  "performAll_legacy [] s = s"
| "performAll_legacy (operation # rest) s = performAll_legacy rest (perform_legacy operation s)"

text \<open>The ranges of the data model.\<close>

definition sailInRange :: "sail \<Rightarrow> bool" where
  "sailInRange sl = (- 75 \<le> angle sl \<and> angle sl \<le> 75 \<and> 0 \<le> openness sl \<and> openness sl \<le> 100)"

definition inRange :: "ship \<Rightarrow> bool" where
  "inRange s = (- 30 \<le> rudderAngle s \<and> rudderAngle s \<le> 30
               \<and> list_all sailInRange (map snd (sails s)))"

definition moduleInRange :: "shipModule \<Rightarrow> bool" where
  "moduleInRange m =
     ((case mangle m of None \<Rightarrow> True | Some a \<Rightarrow> - 75 \<le> a \<and> a \<le> 75)
      \<and> (case mopenness m of None \<Rightarrow> True | Some v \<Rightarrow> 0 \<le> v \<and> v \<le> 100))"

definition inRange_legacy :: "legacyShip \<Rightarrow> bool" where
  "inRange_legacy s = (- 30 \<le> rudderAngle_legacy s \<and> rudderAngle_legacy s \<le> 30
               \<and> list_all (\<lambda>m. mtype m = Sail \<longrightarrow> moduleInRange m) (map snd (modules s)))"

text \<open>
  \<^verbatim>\<open>centerAngle\<close> moves the trim toward zero by its increment; the vessel calls it with
  1.25. An operation is regular when such an increment is not negative.
\<close>

fun regular :: "operation \<Rightarrow> bool" where
  "regular (SailCenterAngle k i) = (0 \<le> i)"
| "regular _ = True"

definition oneSailShip :: ship where
  "oneSailShip = addSail ''sail1'' (newSail \<lparr>px = 165, py = 0\<rparr>) (newShip 0 0)"

definition oneSailLegacyShip :: legacyShip where
  "oneSailLegacyShip =
     addModule ''sail1''
       \<lparr>mtype = Sail, mposition = \<lparr>px = 165, py = 0\<rparr>, mrotation = 0, mhealth = 100,
        mopenness = Some 0, mangle = None\<rparr>
       (newLegacyShip 0 0)"

text \<open>
  The sailing scenario: heading 0, one sail fully open at trim 0, in both classes.
\<close>

definition sailingShip :: ship where
  "sailingShip = adjustSails 100 oneSailShip"

definition sailingLegacyShip :: legacyShip where
  "sailingLegacyShip = adjustSails_legacy 100 oneSailLegacyShip"

subsection \<open>WorldManager: the wind\<close>

record world =
  worldWindDirection :: real
  worldWindPower :: real
  windSystemStartTime :: int

text \<open>
  The remainder operator \<^verbatim>\<open>%\<close> of JavaScript takes the sign of the dividend: on the
  integer milliseconds of the clock, and on reals.
\<close>

definition jsRem :: "int \<Rightarrow> int \<Rightarrow> int" where
  "jsRem a b = sgn a * (\<bar>a\<bar> mod \<bar>b\<bar>)"

definition truncate :: "real \<Rightarrow> int" where
  "truncate q = (if q \<ge> 0 then \<lfloor>q\<rfloor> else \<lceil>q\<rceil>)"

definition jsRemReal :: "real \<Rightarrow> real \<Rightarrow> real" where
  "jsRemReal x y = x - y * real_of_int (truncate (x / y))"

text \<open>
  \<^verbatim>\<open>updateWind()\<close>. \<open>now\<close> is the value of \<^verbatim>\<open>Date.now()\<close> and \<open>random\<close> the value of
  \<^verbatim>\<open>Math.random()\<close>. The direction and the power are computed by \<open>windDirectionAt\<close> and
  \<open>windPowerAt\<close>; \<open>minWindPowerAt\<close> is the floor from which the power is scaled.
\<close>

definition windDirectionAt :: "int \<Rightarrow> real" where
  "windDirectionAt elapsedTime =
     (let cycleDuration = 5 * 60 * 1000;
          cyclePosition = real_of_int (jsRem elapsedTime cycleDuration)
                            / real_of_int cycleDuration;
          direction = cyclePosition * pi * 2
      in whileAtLeast (pi * 2) (whileBelow 0 direction))"

definition minWindPowerAt :: "real \<Rightarrow> real" where
  "minWindPowerAt direction =
     (let isEastWestWind = (\<bar>direction - pi / 2\<bar> < pi / 6 \<or> \<bar>direction - 3 * pi / 2\<bar> < pi / 6)
      in if isEastWestWind then 0.75 else 0.5)"

definition windPowerAt :: "real \<Rightarrow> real \<Rightarrow> real" where
  "windPowerAt direction random =
     (let northSouthAxis = min \<bar>jsRemReal direction pi\<bar> \<bar>jsRemReal (direction - pi) pi\<bar>;
          northSouthAlignment = 1 - (northSouthAxis / (pi / 2));
          minWindPower = minWindPowerAt direction;
          power0 = minWindPower + northSouthAlignment * (2.0 - minWindPower);
          power1 = power0 + (random - 0.5) * 0.1;
          power2 = (if power1 < 0.5 then 0.5 else power1)
      in if power2 > 2.0 then 2.0 else power2)"

definition updateWind :: "int \<Rightarrow> real \<Rightarrow> world \<Rightarrow> world" where
  "updateWind now random w =
     (let currentTime = now;
          elapsedTime = currentTime - windSystemStartTime w;
          direction = windDirectionAt elapsedTime
      in w\<lparr>worldWindDirection := direction,
           worldWindPower := windPowerAt direction random\<rparr>)"

section \<open>Properties\<close>

subsection \<open>Firing\<close>

text \<open>
  C7. A cannon whose loaded flag is false: \<^verbatim>\<open>fire\<close> returns false, the cannon is
  unchanged in every field and nothing is emitted. The model has no exceptional result,
  so the failure is a boolean.
\<close>

theorem fire_unloaded_noop:
  assumes "\<not> isLoaded c"
  shows "fire worldX worldY shipAngle shipVelocity now c = (False, c, [])"
  using assms by (simp add: fire_def)

theorem fire_unloaded_noop_witness:
  "\<not> isLoaded ((newCannon \<lparr>px = -35, py = 75\<rparr> pi)\<lparr>isLoaded := False, game := GameObject True\<rparr>)
   \<and> fire 10 20 0 None 5000
        ((newCannon \<lparr>px = -35, py = 75\<rparr> pi)\<lparr>isLoaded := False, game := GameObject True\<rparr>)
      = (False,
         (newCannon \<lparr>px = -35, py = 75\<rparr> pi)\<lparr>isLoaded := False, game := GameObject True\<rparr>, [])"
  using fire_unloaded_noop
    [of "(newCannon \<lparr>px = -35, py = 75\<rparr> pi)\<lparr>isLoaded := False, game := GameObject True\<rparr>"
        10 20 0 None 5000]
  by (simp add: newCannon_def)


text \<open>
  C8 (as amended). A loaded cannon whose game reference is missing, or is an object
  without an \<^verbatim>\<open>addCannonball\<close> function: \<^verbatim>\<open>fire\<close> returns false, its first event is the
  diagnostic written with \<^verbatim>\<open>console.error\<close>, no projectile is spawned, and the cannon
  afterwards is the cannon before with the loaded flag cleared and the reload timer
  restarted at the current time. The flag and the timer are written before the game
  reference is looked at.
\<close>

theorem fire_without_game:
  assumes "isLoaded c" and "game c = NoGame \<or> game c = GameObject False"
  shows "fst (fire worldX worldY shipAngle shipVelocity now c) = False
       \<and> fst (snd (fire worldX worldY shipAngle shipVelocity now c))
            = c\<lparr>isLoaded := False, lastFiredTime := now\<rparr>
       \<and> (\<exists>msg rest. snd (snd (fire worldX worldY shipAngle shipVelocity now c))
                         = ConsoleError msg # rest)
       \<and> (\<forall>x y a v. AddCannonball x y a v
              \<notin> set (snd (snd (fire worldX worldY shipAngle shipVelocity now c))))"
  using assms by (auto simp add: fire_def Let_def)

theorem fire_without_game_witness:
  "isLoaded (newCannon \<lparr>px = - 35, py = 75\<rparr> pi)
   \<and> (game (newCannon \<lparr>px = - 35, py = 75\<rparr> pi) = NoGame
      \<or> game (newCannon \<lparr>px = - 35, py = 75\<rparr> pi) = GameObject False)
   \<and> fst (fire 10 20 0 None 5000 (newCannon \<lparr>px = - 35, py = 75\<rparr> pi)) = False
   \<and> fst (snd (fire 10 20 0 None 5000 (newCannon \<lparr>px = - 35, py = 75\<rparr> pi)))
        = (newCannon \<lparr>px = - 35, py = 75\<rparr> pi)\<lparr>isLoaded := False, lastFiredTime := 5000\<rparr>"
  using fire_without_game [of "newCannon \<lparr>px = - 35, py = 75\<rparr> pi" 10 20 0 None 5000]
  by (simp add: newCannon_def)

text \<open>
  C8 as first stated leaves the loaded flag and the reload timer unchanged. A new cannon
  (loaded, no game reference, last fired at 0) fired at time 5000 comes back unloaded
  with its timer at 5000.
\<close>

theorem fire_without_game_counterexample:
  "isLoaded (newCannon \<lparr>px = - 35, py = 75\<rparr> pi)
   \<and> game (newCannon \<lparr>px = - 35, py = 75\<rparr> pi) = NoGame
   \<and> fst (fire 10 20 0 None 5000 (newCannon \<lparr>px = - 35, py = 75\<rparr> pi)) = False
   \<and> isLoaded (fst (snd (fire 10 20 0 None 5000 (newCannon \<lparr>px = - 35, py = 75\<rparr> pi))))
        \<noteq> isLoaded (newCannon \<lparr>px = - 35, py = 75\<rparr> pi)
   \<and> lastFiredTime (fst (snd (fire 10 20 0 None 5000 (newCannon \<lparr>px = - 35, py = 75\<rparr> pi))))
        \<noteq> lastFiredTime (newCannon \<lparr>px = - 35, py = 75\<rparr> pi)"
  by (simp add: fire_def newCannon_def Let_def)

subsection \<open>The angle loops\<close>


lemma whileAbove_gt: "b - pi * 2 < x \<Longrightarrow> b - pi * 2 < whileAbove b x"
  by (induction b x rule: whileAbove.induct) (subst whileAbove.simps, simp)








lemma whileBelow_none: "b \<le> x \<Longrightarrow> whileBelow b x = x"
  by (subst whileBelow.simps) simp

lemma whileBelow_once: "x < b \<Longrightarrow> b \<le> x + pi * 2 \<Longrightarrow> whileBelow b x = x + pi * 2"
  by (subst whileBelow.simps) (simp add: whileBelow_none)

lemma whileAtLeast_none: "x < b \<Longrightarrow> whileAtLeast b x = x"
  by (subst whileAtLeast.simps) simp









subsection \<open>Turret convergence\<close>





















subsection \<open>Sail efficiency\<close>

lemma efficiencyAt_max:
  "0 \<le> d \<Longrightarrow> efficiencyAt d p = max 0.35 (1 - 0.65 * d / 90) * (p / 100)"
  by (auto simp: efficiencyAt_def Let_def max_def min_def)

lemma efficiencyAt_cont: "continuous_on {0..90} (\<lambda>d. efficiencyAt d p)"
proof -
  have "continuous_on {0..90} (\<lambda>d::real. max 0.35 (1 - 0.65 * d / 90) * (p / 100))"
    by (intro continuous_intros) simp_all
  moreover have "continuous_on {0..90} (\<lambda>d. efficiencyAt d p)
      \<longleftrightarrow> continuous_on {0..90} (\<lambda>d::real. max 0.35 (1 - 0.65 * d / 90) * (p / 100))"
    by (rule continuous_on_cong) (simp_all add: efficiencyAt_max)
  ultimately show ?thesis by blast
qed

lemma efficiencyAt_mono:
  "0 \<le> p \<Longrightarrow> d1 \<le> d2 \<Longrightarrow> efficiencyAt d2 p \<le> efficiencyAt d1 p"
  unfolding efficiencyAt_def Let_def
  by (intro mult_right_mono) (auto simp: max_def min_def)

lemma efficiencyAt_linear:
  "0 \<le> d \<Longrightarrow> d \<le> 90 \<Longrightarrow> efficiencyAt d p = (1 - 0.65 * d / 90) * (p / 100)"
  by (auto simp: efficiencyAt_def Let_def max_def min_def)

lemma efficiencyAt_flat:
  "90 \<le> d \<Longrightarrow> efficiencyAt d p = 0.35 * (p / 100)"
  by (auto simp: efficiencyAt_def Let_def max_def min_def)

lemma sailTermAt_eff:
  "sailTermAt d a p = efficiencyAt d p + min 0.2 (\<bar>a\<bar> / 75 * 0.2) * (p / 100)"
  by (auto simp: sailTermAt_def efficiencyAt_def Let_def max_def min_def algebra_simps)

lemma sailTermAt_cont: "continuous_on {0..90} (\<lambda>d. sailTermAt d a p)"
  unfolding sailTermAt_eff by (intro continuous_intros efficiencyAt_cont)

lemma sailTermAt_mono:
  "0 \<le> p \<Longrightarrow> d1 \<le> d2 \<Longrightarrow> sailTermAt d2 a p \<le> sailTermAt d1 a p"
  unfolding sailTermAt_eff using efficiencyAt_mono[of p d1 d2] by linarith

lemma sailTermAt_flat: "90 \<le> d \<Longrightarrow> sailTermAt d a p = sailTermAt 90 a p"
  unfolding sailTermAt_eff using efficiencyAt_flat[of d p] efficiencyAt_flat[of 90 p] by linarith

lemma windSailAngleDegrees_range:
  "0 \<le> windSailAngleDegrees w h a \<and> windSailAngleDegrees w h a \<le> 180"
proof -
  let ?x = "min 1 (max (- 1) (cos w * cos (h + a * pi / 180 + pi / 2) + sin w * sin (h + a * pi / 180 + pi / 2)))"
  have b: "- 1 \<le> ?x" "?x \<le> 1" by auto
  have "0 \<le> arccos ?x" "arccos ?x \<le> pi"
    using arccos_lbound[OF b] arccos_ubound[OF b] by auto
  then show ?thesis
    using pi_gt_zero by (simp add: windSailAngleDegrees_def Let_def field_simps)
qed

text \<open>
  C5. For a sail with openness at least 0 (the setters keep it in 0..100) and any trim:
  the efficiency, as a function of the angle \<open>d\<close> in degrees between the wind and the
  sail's normal, is continuous on \<open>[0, 90]\<close>, never increases when \<open>d\<close> grows, is the line
  from 1.0 at 0 to 0.35 at 90 scaled by openness/100 on \<open>[0, 90]\<close>, and stays at the floor
  0.35 (scaled the same way) from 90 on. \<^verbatim>\<open>calculateEfficiency\<close> is this function at the angle
  it computes, which lies in \<open>[0, 180]\<close>. The per-sail term of
  \<^verbatim>\<open>Ship.calculateSailEfficiency\<close>, which adds a bonus that depends on the trim only, has
  the same shape.
\<close>

theorem sail_efficiency_shape:
  assumes "0 \<le> openness s"
  shows "calculateEfficiency windDirection shipAngle s
           = efficiencyAt (windSailAngleDegrees windDirection shipAngle (angle s)) (openness s)
       \<and> 0 \<le> windSailAngleDegrees windDirection shipAngle (angle s)
       \<and> windSailAngleDegrees windDirection shipAngle (angle s) \<le> 180
       \<and> continuous_on {0..90} (\<lambda>d. efficiencyAt d (openness s))
       \<and> (d1 \<le> d2 \<longrightarrow> efficiencyAt d2 (openness s) \<le> efficiencyAt d1 (openness s))
       \<and> (0 \<le> d \<and> d \<le> 90 \<longrightarrow>
            efficiencyAt d (openness s) = (1 - 0.65 * d / 90) * (openness s / 100))
       \<and> (90 \<le> d \<longrightarrow> efficiencyAt d (openness s) = 0.35 * (openness s / 100))
       \<and> continuous_on {0..90} (\<lambda>d. sailTermAt d (angle s) (openness s))
       \<and> (d1 \<le> d2 \<longrightarrow>
            sailTermAt d2 (angle s) (openness s) \<le> sailTermAt d1 (angle s) (openness s))
       \<and> (90 \<le> d \<longrightarrow> sailTermAt d (angle s) (openness s) = sailTermAt 90 (angle s) (openness s))"
proof (intro conjI impI)
  show "calculateEfficiency windDirection shipAngle s
           = efficiencyAt (windSailAngleDegrees windDirection shipAngle (angle s)) (openness s)"
    by (simp add: calculateEfficiency_def)
  show "0 \<le> windSailAngleDegrees windDirection shipAngle (angle s)"
    and "windSailAngleDegrees windDirection shipAngle (angle s) \<le> 180"
    using windSailAngleDegrees_range by blast+
  show "continuous_on {0..90} (\<lambda>d. efficiencyAt d (openness s))"
    by (rule efficiencyAt_cont)
  show "continuous_on {0..90} (\<lambda>d. sailTermAt d (angle s) (openness s))"
    by (rule sailTermAt_cont)
next
  assume "d1 \<le> d2"
  then show "efficiencyAt d2 (openness s) \<le> efficiencyAt d1 (openness s)"
    by (rule efficiencyAt_mono[OF assms])
next
  assume "0 \<le> d \<and> d \<le> 90"
  then show "efficiencyAt d (openness s) = (1 - 0.65 * d / 90) * (openness s / 100)"
    using efficiencyAt_linear by blast
next
  assume "90 \<le> d"
  then show "efficiencyAt d (openness s) = 0.35 * (openness s / 100)"
    by (rule efficiencyAt_flat)
next
  assume "d1 \<le> d2"
  then show "sailTermAt d2 (angle s) (openness s) \<le> sailTermAt d1 (angle s) (openness s)"
    by (rule sailTermAt_mono[OF assms])
next
  assume "90 \<le> d"
  then show "sailTermAt d (angle s) (openness s) = sailTermAt 90 (angle s) (openness s)"
    by (rule sailTermAt_flat)
qed

theorem sail_efficiency_shape_witness:
  "0 \<le> openness (setOpenness 100 (newSail \<lparr>px = 165, py = 0\<rparr>))
   \<and> (0::real) \<le> 45 \<and> (45::real) \<le> 90 \<and> (90::real) \<le> 90
   \<and> efficiencyAt 0 (openness (setOpenness 100 (newSail \<lparr>px = 165, py = 0\<rparr>))) = 1
   \<and> efficiencyAt 90 (openness (setOpenness 100 (newSail \<lparr>px = 165, py = 0\<rparr>))) = 0.35
   \<and> efficiencyAt 90 (openness (setOpenness 100 (newSail \<lparr>px = 165, py = 0\<rparr>)))
       \<le> efficiencyAt 45 (openness (setOpenness 100 (newSail \<lparr>px = 165, py = 0\<rparr>)))"
  using sail_efficiency_shape [of "setOpenness 100 (newSail \<lparr>px = 165, py = 0\<rparr>)" 0 0 45 90 0]
        sail_efficiency_shape [of "setOpenness 100 (newSail \<lparr>px = 165, py = 0\<rparr>)" 0 0 45 90 90]
  by (simp add: setOpenness_def newSail_def)

subsection \<open>Hull containment\<close>

lemma bowEdge_eq: "bowEdge y = 605 / 2 - y ^ 2 / 72"
  by (simp add: bowEdge_def quadAt_def bow_def bowTip_def bowBottom_def power2_eq_square field_simps)

lemma sternEdge_eq: "sternEdge y = - (605 / 2) + y ^ 2 * (17 / 3240)"
  by (simp add: sternEdge_def quadAt_def sternBottom_def sternTip_def stern_def power2_eq_square field_simps)

text \<open>
  Each point of the two curves of the hull path lies on the edge function at its own
  height, so the edges are the curves.
\<close>

lemma bow_curve_on_edge:
  "quadAt bow bowTip \<lparr>px = px bow, py = py bowBottom\<rparr> t
     = \<lparr>px = bowEdge (90 - 180 * t), py = 90 - 180 * t\<rparr>"
  by (simp add: bowEdge_def quadAt_def bow_def bowTip_def bowBottom_def power2_eq_square field_simps)

lemma stern_curve_on_edge:
  "quadAt sternBottom sternTip stern t
     = \<lparr>px = sternEdge (180 * t - 90), py = 180 * t - 90\<rparr>"
  by (simp add: sternEdge_def quadAt_def sternBottom_def sternTip_def stern_def power2_eq_square field_simps)

lemma sq_le_8100: "- 90 \<le> y \<Longrightarrow> y \<le> 90 \<Longrightarrow> y ^ 2 \<le> (8100::real)"
proof -
  assume "- 90 \<le> y" "y \<le> 90"
  then have "\<bar>y\<bar> \<le> \<bar>90::real\<bar>" by simp
  then have "y ^ 2 \<le> (90::real) ^ 2" by (rule abs_le_square_iff[THEN iffD1])
  then show ?thesis by simp
qed

lemma hull_mid_section:
  assumes "- 220 \<le> x" "x \<le> 150"
  shows "isPointInHullPath x y = analyticHull x y"
proof -
  have a: "analyticHull x y = (- 90 \<le> y \<and> y \<le> 90)"
    using assms by (auto simp: analyticHull_def)
  have "- 90 \<le> y \<Longrightarrow> y \<le> 90 \<Longrightarrow> sternEdge y \<le> x \<and> x \<le> bowEdge y"
    using sq_le_8100[of y] assms unfolding bowEdge_eq sternEdge_eq by (auto simp: field_simps)
  then show ?thesis unfolding a by (auto simp: isPointInHullPath_def)
qed

lemma hull_in_box: "isPointInHullPath x y \<Longrightarrow> boundingBoxHull x y"
proof -
  assume h: "isPointInHullPath x y"
  then have b: "sternEdge y \<le> x" "x \<le> bowEdge y" "- 90 \<le> y" "y \<le> 90"
    by (simp_all add: isPointInHullPath_def)
  have sq: "0 \<le> y ^ 2" by simp
  have "- 345 \<le> x" using b(1) sq unfolding sternEdge_eq by linarith
  moreover have "x \<le> 415" using b(2) sq unfolding bowEdge_eq by linarith
  ultimately show ?thesis using b by (simp add: boundingBoxHull_def)
qed

text \<open>
  C4 (as amended). On the straight mid-section of the hull, for every local point with
  \<open>-220 \<le> x \<le> 150\<close>, the exact test against the hull path and the analytic outline of the
  older class give the same answer. The bounding box that the typed class falls back to
  accepts every point that the exact test accepts.
\<close>

theorem hull_tests_agree_mid_section:
  "(- 220 \<le> x \<and> x \<le> 150 \<longrightarrow> hullTest_legacy True x y = hullTest_legacy False x y)
   \<and> (hullTest True True x y \<longrightarrow> hullTest path False x y)"
  using hull_mid_section[of x y] hull_in_box[of x y]
  by (simp add: hullTest_legacy_def hullTest_def)

theorem hull_tests_agree_mid_section_witness:
  "(- 220 \<le> (0::real) \<and> (0::real) \<le> 150) \<and> hullTest True True 0 0
   \<and> hullTest_legacy True 0 0 = hullTest_legacy False 0 0 \<and> hullTest True False 0 0"
proof -
  have "hullTest True True 0 0"
    by (simp add: hullTest_def isPointInHullPath_def bowEdge_eq sternEdge_eq)
  then show ?thesis
    using hull_tests_agree_mid_section[of 0 0 True] by simp
qed

text \<open>
  C4 as first stated has the exact test and the fallback agree at every local point. The
  bow curve of the hull path reaches \<open>x = 302.5\<close> at most. The analytic outline accepts
  the local point (310, 0) and the bounding box accepts (400, 0); the exact test rejects
  both.
\<close>

theorem hull_tests_differ_counterexample:
  "hullTest_legacy False 310 0 \<and> \<not> hullTest_legacy True 310 0
   \<and> hullTest True False 400 0 \<and> \<not> hullTest True True 400 0"
  by (simp add: hullTest_legacy_def hullTest_def analyticHull_def boundingBoxHull_def
      isPointInHullPath_def bowEdge_eq sternEdge_eq power2_eq_square)

subsection \<open>Safe dismount position\<close>

lemma hull_center: "hullTest_legacy ctx 0 0"
  by (simp add: hullTest_legacy_def isPointInHullPath_def analyticHull_def bowEdge_eq sternEdge_eq)

lemma center_on_deck:
  "isPositionOnDeck s (px (position_legacy s)) (py (position_legacy s)) ctx
     = (\<not> centerBlocked s)"
  by (simp add: isPositionOnDeck_def localPointOnDeck_def hull_center MASTS_def WHEEL_def
      CANNONS_def centerBlocked_def)

lemma findSafe_cases:
  "isPositionOnDeck s (px (findSafeDismountPosition s startX startY ctx))
                      (py (findSafeDismountPosition s startX startY ctx)) ctx
   \<or> findSafeDismountPosition s startX startY ctx
        = \<lparr>px = px (position_legacy s), py = py (position_legacy s)\<rparr>"
proof (cases "isPositionOnDeck s startX startY ctx")
  case True
  then show ?thesis by (simp add: findSafeDismountPosition_def)
next
  case False
  show ?thesis
  proof (cases "find (\<lambda>p. isPositionOnDeck s (px p) (py p) ctx) (dismountCandidates s startX startY)")
    case None
    then show ?thesis using False by (simp add: findSafeDismountPosition_def)
  next
    case (Some p)
    then have "isPositionOnDeck s (px p) (py p) ctx"
      by (auto simp: find_Some_iff)
    then show ?thesis using False Some by (simp add: findSafeDismountPosition_def)
  qed
qed

text \<open>
  C3 (as amended). For every start point and every vessel on whose centre no mounted
  module (other than a fixed wheel or cannon fixture) has its box, the point returned by
  \<^verbatim>\<open>findSafeDismountPosition\<close> is on deck, with or without a drawing context; so is the
  vessel's centre, the last resort of the search.
\<close>

theorem dismount_position_walkable:
  assumes "\<not> centerBlocked s"
  shows "isPositionOnDeck s (px (findSafeDismountPosition s startX startY ctx))
                            (py (findSafeDismountPosition s startX startY ctx)) ctx
       \<and> isPositionOnDeck s (px (position_legacy s)) (py (position_legacy s)) ctx"
  using assms findSafe_cases[of s startX startY ctx] center_on_deck[of s ctx]
  by auto

lemma above_deck: "90 < rotatedY \<Longrightarrow> \<not> localPointOnDeck s ctx rotatedX rotatedY"
  by (simp add: localPointOnDeck_def hullTest_legacy_def isPointInHullPath_def analyticHull_def)

lemma sin_scaled: "0 \<le> d \<Longrightarrow> - d \<le> sin a * (d::real)"
  using mult_right_mono[of "- 1" "sin a" d] by simp

lemma candidates_form:
  "p \<in> set (dismountCandidates s startX startY) \<Longrightarrow>
     \<exists>inc i. 1 \<le> inc \<and> inc \<le> 5 \<and> i < 8 \<and> p = dismountCandidate s startX startY inc i"
  by (fastforce simp add: dismountCandidates_def)

lemma blocked_candidates:
  "p \<in> set (dismountCandidates blockedShip 0 1000) \<Longrightarrow> 90 < py p"
proof -
  assume "p \<in> set (dismountCandidates blockedShip 0 1000)"
  then obtain inc i :: nat where inc: "1 \<le> inc" "inc \<le> 5"
    and p: "p = dismountCandidate blockedShip 0 1000 inc i"
    using candidates_form by blast
  have py: "py p = 1000 + sin ((real i / 8) * pi * 2) * ((60 * real inc) / 5)"
    by (simp add: p dismountCandidate_def blockedShip_def addModule_def newLegacyShip_def Let_def)
  have d: "0 \<le> (60 * real inc) / 5" "(60 * real inc) / 5 \<le> 60" using inc by simp_all
  have "- ((60 * real inc) / 5) \<le> sin ((real i / 8) * pi * 2) * ((60 * real inc) / 5)"
    by (rule sin_scaled[OF d(1)])
  then show ?thesis using d(2) py by linarith
qed

text \<open>
  C3 as first stated covers every set of mounted modules. A sail mounted at the local
  point (0, 0) is snapped to no mast (the nearest is 35 away), so its box lies over the
  centre. From the start point (0, 1000) neither the start nor any of the forty
  candidates is on deck, the search falls back to the centre, and the centre is not on
  deck.
\<close>

theorem dismount_center_blocked_counterexample:
  "findSafeDismountPosition blockedShip 0 1000 False = \<lparr>px = 0, py = 0\<rparr>
   \<and> \<not> isPositionOnDeck blockedShip
         (px (findSafeDismountPosition blockedShip 0 1000 False))
         (py (findSafeDismountPosition blockedShip 0 1000 False)) False
   \<and> \<not> isPositionOnDeck blockedShip (px (position_legacy blockedShip))
         (py (position_legacy blockedShip)) False"
proof -
  have pos: "position_legacy blockedShip = \<lparr>px = 0, py = 0\<rparr>"
       "bodyAngle (body_legacy blockedShip) = 0"
    by (simp_all add: blockedShip_def addModule_def newLegacyShip_def)
  have start: "\<not> isPositionOnDeck blockedShip 0 1000 False"
    by (simp add: isPositionOnDeck_def pos above_deck)
  have "\<And>p. p \<in> set (dismountCandidates blockedShip 0 1000)
          \<Longrightarrow> \<not> isPositionOnDeck blockedShip (px p) (py p) False"
    using blocked_candidates by (simp add: isPositionOnDeck_def pos above_deck)
  then have none: "find (\<lambda>p. isPositionOnDeck blockedShip (px p) (py p) False)
                     (dismountCandidates blockedShip 0 1000) = None"
    by (simp add: find_None_iff)
  have r: "findSafeDismountPosition blockedShip 0 1000 False = \<lparr>px = 0, py = 0\<rparr>"
    using start none by (simp add: findSafeDismountPosition_def pos)
  have blocked: "centerBlocked blockedShip"
    by (simp add: centerBlocked_def blockedShip_def addModule_def newLegacyShip_def
        snapToFixture_def MASTS_def isStaticObstacle_def inModuleBox_def
        getModuleVisualPosition_def)
  then have c: "\<not> isPositionOnDeck blockedShip (px (position_legacy blockedShip))
         (py (position_legacy blockedShip)) False"
    by (simp add: center_on_deck)
  then show ?thesis using r by (simp add: pos)
qed

text \<open>
  The fitted vessel carries six modules, none over its centre. The world point (140, 80)
  is the centre of the crate and not on deck; the search returns the first candidate of
  the first ring, (152, 80), just outside the crate's box.
\<close>

lemma fitted_state:
  "position_legacy fittedLegacyShip = \<lparr>px = 100, py = 50\<rparr>"
  "bodyAngle (body_legacy fittedLegacyShip) = 0"
  "map fst (modules fittedLegacyShip)
     = [''sail1'', ''sail2'', ''sail3'', ''wheel'', ''cannon1'', ''crate'']"
  by (simp_all add: fittedLegacyShip_def addModule_def newLegacyShip_def)

lemma fitted_not_blocked: "\<not> centerBlocked fittedLegacyShip"
  by (simp add: centerBlocked_def fittedLegacyShip_def addModule_def newLegacyShip_def
      snapToFixture_def MASTS_def CANNONS_def WHEEL_def isStaticObstacle_def inModuleBox_def
      getModuleVisualPosition_def)

lemma fitted_crate_off_deck: "\<not> isPositionOnDeck fittedLegacyShip 140 80 False"
  by (simp add: isPositionOnDeck_def localPointOnDeck_def fittedLegacyShip_def addModule_def
      newLegacyShip_def snapToFixture_def MASTS_def CANNONS_def WHEEL_def isStaticObstacle_def
      inModuleBox_def getModuleVisualPosition_def)

lemma fitted_first_candidate:
  "dismountCandidate fittedLegacyShip 140 80 (Suc 0) 0 = \<lparr>px = 152, py = 80\<rparr>"
  by (simp add: dismountCandidate_def Let_def fittedLegacyShip_def addModule_def newLegacyShip_def)

lemma fitted_first_on_deck: "isPositionOnDeck fittedLegacyShip 152 80 False"
  by (simp add: isPositionOnDeck_def localPointOnDeck_def fittedLegacyShip_def addModule_def
      newLegacyShip_def snapToFixture_def MASTS_def CANNONS_def WHEEL_def isStaticObstacle_def
      inModuleBox_def getModuleVisualPosition_def hullTest_legacy_def analyticHull_def)

lemma candidates_head:
  "dismountCandidates s x y
     = dismountCandidate s x y (Suc 0) 0 # tl (dismountCandidates s x y)"
  by (simp add: dismountCandidates_def upt_conv_Cons)

lemma fitted_result:
  "\<not> isPositionOnDeck fittedLegacyShip 140 80 False \<Longrightarrow>
   findSafeDismountPosition fittedLegacyShip 140 80 False = \<lparr>px = 152, py = 80\<rparr>"
  unfolding findSafeDismountPosition_def
  by (subst candidates_head) (simp add: fitted_first_candidate fitted_first_on_deck)

theorem dismount_position_walkable_witness:
  "\<not> centerBlocked fittedLegacyShip
   \<and> map fst (modules fittedLegacyShip)
       = [''sail1'', ''sail2'', ''sail3'', ''wheel'', ''cannon1'', ''crate'']
   \<and> \<not> isPositionOnDeck fittedLegacyShip 140 80 False
   \<and> findSafeDismountPosition fittedLegacyShip 140 80 False = \<lparr>px = 152, py = 80\<rparr>
   \<and> isPositionOnDeck fittedLegacyShip 152 80 False
   \<and> isPositionOnDeck fittedLegacyShip
        (px (findSafeDismountPosition fittedLegacyShip 5000 5000 True))
        (py (findSafeDismountPosition fittedLegacyShip 5000 5000 True)) True
   \<and> isPositionOnDeck fittedLegacyShip 100 50 False"
  using dismount_position_walkable[OF fitted_not_blocked, of 140 80 False]
        dismount_position_walkable[OF fitted_not_blocked, of 5000 5000 True]
        fitted_not_blocked fitted_crate_off_deck fitted_state
        fitted_result[OF fitted_crate_off_deck]
  by simp
subsection \<open>Clamped state\<close>

lemma rudderChangeRateAt_pos: "0 \<le> currentSpeed \<Longrightarrow> 0 < rudderChangeRateAt currentSpeed"
  by (simp add: rudderChangeRateAt_def Let_def min_def)

lemma turnRudder_range:
  assumes "- 30 \<le> r" "r \<le> 30" "0 < rate"
  shows "- 30 \<le> turnRudder dir rate r \<and> turnRudder dir rate r \<le> 30"
  using assms by (cases dir) (auto simp: turnRudder_def)

lemma applyRudder_sails: "sails (applyRudder dir s) = sails s"
  by (simp add: applyRudder_def Let_def)

lemma applyRudder_rudder:
  assumes "- 30 \<le> rudderAngle s" "rudderAngle s \<le> 30"
  shows "- 30 \<le> rudderAngle (applyRudder dir s) \<and> rudderAngle (applyRudder dir s) \<le> 30"
proof -
  have "rudderAngle (applyRudder dir s)
      = turnRudder dir (rudderChangeRateAt (sqrt (px (velocity (shipBody s)) ^ 2
                                                 + py (velocity (shipBody s)) ^ 2)))
          (rudderAngle s)"
    by (simp add: applyRudder_def Let_def)
  then show ?thesis
    using turnRudder_range[OF assms rudderChangeRateAt_pos] by simp
qed

lemma setOpenness_range: "sailInRange sl \<Longrightarrow> sailInRange (setOpenness p sl)"
  by (simp add: sailInRange_def setOpenness_def)

lemma openSail_range: "sailInRange sl \<Longrightarrow> sailInRange (openSail i sl)"
  by (simp add: openSail_def setOpenness_range)

lemma closeSail_range: "sailInRange sl \<Longrightarrow> sailInRange (closeSail i sl)"
  by (simp add: closeSail_def setOpenness_range)

lemma rotate_range: "sailInRange sl \<Longrightarrow> sailInRange (rotate d sl)"
  by (simp add: sailInRange_def rotate_def)

lemma centerAngle_range: "0 \<le> i \<Longrightarrow> sailInRange sl \<Longrightarrow> sailInRange (centerAngle i sl)"
  by (auto simp: sailInRange_def centerAngle_def)

lemma forEachValue_all:
  "(\<And>v. P v \<Longrightarrow> P (f v)) \<Longrightarrow> list_all P (map snd m) \<Longrightarrow> list_all P (map snd (forEachValue f m))"
  by (induction m) (auto simp: forEachValue_def)

lemma onSail_all:
  "(\<And>v. P v \<Longrightarrow> P (f v)) \<Longrightarrow> list_all P (map snd (sails s))
     \<Longrightarrow> list_all P (map snd (sails (onSail k f s)))"
  by (induction "sails s" arbitrary: s) (auto simp: onSail_def list_all_iff)

lemma perform_inRange:
  assumes "inRange s" "regular operation"
  shows "inRange (perform operation s)"
proof (cases operation)
  case (ApplyRudder dir)
  then show ?thesis using assms applyRudder_rudder[of s dir]
    by (simp add: inRange_def applyRudder_sails)
next
  case (RotateSails dir)
  have "list_all sailInRange (map snd (sails (rotateSails dir s)))"
    using assms(1)
    by (cases dir)
       (auto simp: rotateSails_def Let_def inRange_def
             intro!: forEachValue_all rotate_range centerAngle_range)
  moreover have "rudderAngle (rotateSails dir s) = rudderAngle s"
    by (simp add: rotateSails_def Let_def)
  ultimately show ?thesis using assms RotateSails
    by (simp add: inRange_def)
next
  case (AdjustSails p)
  then show ?thesis using assms
    by (simp add: inRange_def adjustSails_def forEachValue_all setOpenness_range)
next
  case OpenSails
  then show ?thesis using assms
    by (simp add: inRange_def openSails_def forEachValue_all openSail_range)
next
  case CloseSails
  then show ?thesis using assms
    by (simp add: inRange_def closeSails_def forEachValue_all closeSail_range)
next
  case (SailSetOpenness k p)
  then show ?thesis using assms onSail_all[of sailInRange "setOpenness p" s k]
    by (simp add: inRange_def setOpenness_range onSail_def)
next
  case (SailOpen k i)
  then show ?thesis using assms onSail_all[of sailInRange "openSail i" s k]
    by (simp add: inRange_def openSail_range onSail_def)
next
  case (SailClose k i)
  then show ?thesis using assms onSail_all[of sailInRange "closeSail i" s k]
    by (simp add: inRange_def closeSail_range onSail_def)
next
  case (SailRotate k d)
  then show ?thesis using assms onSail_all[of sailInRange "rotate d" s k]
    by (simp add: inRange_def rotate_range onSail_def)
next
  case (SailCenterAngle k i)
  then show ?thesis using assms onSail_all[of sailInRange "centerAngle i" s k]
    by (simp add: inRange_def centerAngle_range onSail_def)
qed

lemma performAll_inRange:
  "inRange s \<Longrightarrow> list_all regular ops \<Longrightarrow> inRange (performAll ops s)"
  by (induction ops arbitrary: s) (simp_all add: perform_inRange)

lemma forEachSail_range:
  assumes "\<And>m. moduleInRange m \<Longrightarrow> moduleInRange (f m)" "\<And>m. mtype (f m) = mtype m"
    and "list_all (\<lambda>m. mtype m = Sail \<longrightarrow> moduleInRange m) (map snd (modules s))"
  shows "list_all (\<lambda>m. mtype m = Sail \<longrightarrow> moduleInRange m) (map snd (modules (forEachSail f s)))"
  using assms(3) unfolding forEachSail_def
  by (induction "modules s" arbitrary: s) (auto simp: forEachValue_def list_all_iff assms(1,2))

lemma forEachSail_rudder: "rudderAngle_legacy (forEachSail f s) = rudderAngle_legacy s"
  by (simp add: forEachSail_def)

lemma applyRudder_legacy_range:
  assumes "inRange_legacy s"
  shows "inRange_legacy (applyRudder_legacy dir s)"
proof -
  from assms have r: "- 30 \<le> rudderAngle_legacy s" "rudderAngle_legacy s \<le> 30"
    by (simp_all add: inRange_legacy_def)
  have "rudderAngle_legacy (applyRudder_legacy dir s)
      = turnRudder dir (rudderChangeRateAt (sqrt (px (velocity (body_legacy s)) ^ 2
                                                 + py (velocity (body_legacy s)) ^ 2)))
          (rudderAngle_legacy s)"
    by (simp add: applyRudder_legacy_def Let_def)
  moreover have "modules (applyRudder_legacy dir s) = modules s"
    by (simp add: applyRudder_legacy_def Let_def)
  ultimately show ?thesis
    using turnRudder_range[OF r rudderChangeRateAt_pos] assms by (simp add: inRange_legacy_def)
qed

lemma perform_legacy_inRange:
  assumes "inRange_legacy s"
  shows "inRange_legacy (perform_legacy operation s)"
proof (cases operation)
  case (ApplyRudderL dir)
  then show ?thesis using assms by (simp add: applyRudder_legacy_range)
next
  case (RotateSailsL dir)
  show ?thesis using assms unfolding RotateSailsL perform_legacy.simps rotateSails_legacy_def Let_def inRange_legacy_def forEachSail_rudder
    by (intro conjI forEachSail_range)
       (auto simp: moduleInRange_def split: option.splits direction.splits)
next
  case (AdjustSailsL p)
  show ?thesis using assms unfolding AdjustSailsL perform_legacy.simps adjustSails_legacy_def inRange_legacy_def forEachSail_rudder
    by (intro conjI forEachSail_range) (auto simp: moduleInRange_def split: option.splits)
next
  case OpenSailsL
  show ?thesis using assms unfolding OpenSailsL perform_legacy.simps openSails_legacy_def inRange_legacy_def forEachSail_rudder
    by (intro conjI forEachSail_range) (auto simp: moduleInRange_def split: option.splits)
next
  case CloseSailsL
  show ?thesis using assms unfolding CloseSailsL perform_legacy.simps closeSails_legacy_def inRange_legacy_def forEachSail_rudder
    by (intro conjI forEachSail_range) (auto simp: moduleInRange_def split: option.splits)
qed

lemma performAll_legacy_inRange:
  "inRange_legacy s \<Longrightarrow> inRange_legacy (performAll_legacy ops s)"
  by (induction ops arbitrary: s) (simp_all add: perform_legacy_inRange)

text \<open>
  Over the reals, every sequence of the operations in which \<^verbatim>\<open>centerAngle\<close> gets no
  negative increment keeps a state in range, in both classes. (The argument of an
  operation is a real here; a NaN argument is outside the model.)
\<close>

lemma regular_operations_keep_range:
  assumes "inRange s" and "list_all regular ops" and "inRange_legacy t"
  shows "inRange (performAll ops s) \<and> inRange_legacy (performAll_legacy lops t)"
  using assms by (simp add: performAll_inRange performAll_legacy_inRange)

lemma oneSailShip_inRange: "inRange oneSailShip"
  by (simp add: oneSailShip_def addSail_def newShip_def newSail_def inRange_def sailInRange_def)

lemma oneSailLegacyShip_inRange: "inRange_legacy oneSailLegacyShip"
  by (simp add: oneSailLegacyShip_def addModule_def newLegacyShip_def inRange_legacy_def
      moduleInRange_def snapToFixture_def MASTS_def)

text \<open>
  C6. After any sequence of the mutating operations the rudder is to lie in -30..30,
  every trim in -75..75 and every openness in 0..100. \<^verbatim>\<open>SailModule\<close> gives the range of the
  trim as -75 to +75 degrees and describes \<^verbatim>\<open>centerAngle\<close> as moving the trim toward 0
  degrees; \<^verbatim>\<open>rotate\<close> clamps the trim on both sides. \<^verbatim>\<open>centerAngle\<close> bounds its result on the
  side of zero only: on a new vessel with one sail, \<^verbatim>\<open>rotate(10)\<close> followed by
  \<^verbatim>\<open>centerAngle(-100)\<close> leaves the trim at 110, outside the range.
\<close>

theorem centerAngle_leaves_range:
  "inRange oneSailShip
   \<and> angle (snd (hd (sails (performAll [SailRotate ''sail1'' 10, SailCenterAngle ''sail1'' (- 100)]
                               oneSailShip)))) = 110
   \<and> \<not> inRange (performAll [SailRotate ''sail1'' 10, SailCenterAngle ''sail1'' (- 100)] oneSailShip)"
  by (simp add: oneSailShip_def addSail_def newShip_def newSail_def inRange_def sailInRange_def
      onSail_def rotate_def centerAngle_def)

subsection \<open>Thrust along the heading\<close>

lemma applyDrag_frame:
  "sails (applyDrag wd wp s) = sails s"
  "bodyAngle (shipBody (applyDrag wd wp s)) = bodyAngle (shipBody s)"
  "force (shipBody (applyDrag wd wp s)) = force (shipBody s)"
  "torque (shipBody (applyDrag wd wp s)) = torque (shipBody s)"
  by (simp_all add: applyDrag_def Let_def setVelocity_def)

lemma applyDrag_legacy_frame:
  "modules (applyDrag_legacy wd wp s) = modules s"
  "bodyAngle (body_legacy (applyDrag_legacy wd wp s)) = bodyAngle (body_legacy s)"
  "force (body_legacy (applyDrag_legacy wd wp s)) = force (body_legacy s)"
  "torque (body_legacy (applyDrag_legacy wd wp s)) = torque (body_legacy s)"
  by (simp_all add: applyDrag_legacy_def Let_def setVelocity_def)

lemma windForceVector_heading:
  assumes wp: "0 \<le> windPower"
    and op: "list_ex (\<lambda>sl. openness sl > 0) (map snd (sails s))"
    and nn: "list_all (\<lambda>sl. 0 \<le> openness sl) (map snd (sails s))"
  shows "\<exists>ff k. 0 \<le> k \<and> windForceVector s windDirection windPower
           = Some (ff, \<lparr>px = cos (bodyAngle (shipBody s)) * k,
                        py = sin (bodyAngle (shipBody s)) * k\<rparr>)"
proof -
  define se where "se = calculateSailEfficiency s"
  define h where "h = bodyAngle (shipBody s)"
  define rel where "rel = atan2 (sin windDirection * cos h - cos windDirection * sin h)
                               (cos windDirection * cos h + sin windDirection * sin h)"
  define deg where "deg = \<bar>rel\<bar> * 180 / pi"
  define al where "al = max 0.15 (if deg \<le> 90 then 1.0 - (0.55 * deg / 90)
                                  else 0.45 * max 0 (1 - (deg - 90) / 90))"
  define avg where "avg = (if real (length (map snd (sails s))) > 0
       then sum_list (map openness (map snd (sails s))) / real (length (map snd (sails s))) else 0)"
  define ff where "ff = (0.8 + windPower) * max 0.40 se * 0.08 * (avg / 100)"
  define k where "k = (if se > 0 then ff * al else 0)"
  have eq: "windForceVector s windDirection windPower
           = Some (ff, \<lparr>px = cos h * k, py = sin h * k\<rparr>)"
    using op unfolding windForceVector_def Let_def k_def ff_def avg_def al_def deg_def rel_def
      h_def se_def
    by simp
  have al: "0 \<le> al" by (simp add: al_def)
  have "0 \<le> sum_list (map openness (map snd (sails s)))"
    using nn by (intro sum_list_nonneg) (auto simp: list_all_iff)
  then have avg: "0 \<le> avg" by (simp add: avg_def)
  have p1: "0 \<le> 0.8 + windPower" using wp by simp
  have p2: "0 \<le> max 0.40 se" by simp
  have p3: "0 \<le> avg / 100" using avg by simp
  have ff: "0 \<le> ff" unfolding ff_def
    by (intro mult_nonneg_nonneg p1 p2 p3) simp
  have "0 \<le> k" using ff al by (simp add: k_def)
  then show ?thesis using eq unfolding h_def by blast
qed

lemma windForceVector_legacy_heading:
  assumes wp: "0 \<le> windPower"
    and op: "list_ex (\<lambda>m. orZero (mopenness m) > 0)
               (filter (\<lambda>m. mtype m = Sail) (map snd (modules s)))"
  shows "\<exists>ff k. 0 \<le> k \<and> windForceVector_legacy s windDirection windPower
           = Some (ff, \<lparr>px = cos (bodyAngle (body_legacy s)) * k,
                        py = sin (bodyAngle (body_legacy s)) * k\<rparr>)"
proof -
  define se where "se = calculateSailEfficiency_legacy s"
  define h where "h = bodyAngle (body_legacy s)"
  define rel where "rel = atan2 (sin windDirection * cos h - cos windDirection * sin h)
                               (cos windDirection * cos h + sin windDirection * sin h)"
  define deg where "deg = \<bar>rel\<bar> * 180 / pi"
  define al where "al = max 0.1 (if deg \<le> 90 then 1.0 - (0.65 * deg / 90)
                                  else 0.35 * max 0 (1 - ((deg - 90) / 90)))"
  define ff where "ff = windPower * se * 0.024"
  define k where "k = (if se > 0 then ff * al else 0)"
  have eq: "windForceVector_legacy s windDirection windPower
           = Some (ff, \<lparr>px = cos h * k, py = sin h * k\<rparr>)"
    using op unfolding windForceVector_legacy_def Let_def k_def ff_def al_def deg_def rel_def
      h_def se_def
    by simp
  have al: "0 \<le> al" by (simp add: al_def)
  have "se > 0 \<Longrightarrow> 0 \<le> ff" using wp by (simp add: ff_def)
  then have "0 \<le> k" using al by (simp add: k_def)
  then show ?thesis using eq unfolding h_def by blast
qed

text \<open>
  C1 (as amended). For every heading, wind direction, sail trim and wind power that is
  not negative, with at least one sail open (and, in the typed class, no sail with a
  negative openness): the force that \<^verbatim>\<open>applyWindForce\<close> adds to the body's force accumulator
  is \<open>k\<close> times the heading unit vector \<open>(cos heading, sin heading)\<close> for some \<open>k \<ge> 0\<close>, and
  no torque is added. The wind direction and the trims enter \<open>k\<close> only. Both versions of
  the class.
\<close>

theorem wind_force_along_heading:
  assumes wp: "0 \<le> windPower"
    and op: "list_ex (\<lambda>sl. openness sl > 0) (map snd (sails s))"
    and nn: "list_all (\<lambda>sl. 0 \<le> openness sl) (map snd (sails s))"
    and opL: "list_ex (\<lambda>m. orZero (mopenness m) > 0)
               (filter (\<lambda>m. mtype m = Sail) (map snd (modules t)))"
  shows "(\<exists>k. 0 \<le> k
           \<and> px (force (shipBody (applyWindForce windDirection windPower s)))
               = px (force (shipBody s)) + k * cos (bodyAngle (shipBody s))
           \<and> py (force (shipBody (applyWindForce windDirection windPower s)))
               = py (force (shipBody s)) + k * sin (bodyAngle (shipBody s)))
       \<and> torque (shipBody (applyWindForce windDirection windPower s)) = torque (shipBody s)
       \<and> (\<exists>k. 0 \<le> k
           \<and> px (force (body_legacy (applyWindForce_legacy windDirection windPower t)))
               = px (force (body_legacy t)) + k * cos (bodyAngle (body_legacy t))
           \<and> py (force (body_legacy (applyWindForce_legacy windDirection windPower t)))
               = py (force (body_legacy t)) + k * sin (bodyAngle (body_legacy t)))
       \<and> torque (body_legacy (applyWindForce_legacy windDirection windPower t))
           = torque (body_legacy t)"
proof -
  let ?s3 = "applyDrag windDirection windPower s"
  let ?t3 = "applyDrag_legacy windDirection windPower t"
  obtain ff k where k: "0 \<le> k" "windForceVector ?s3 windDirection windPower
           = Some (ff, \<lparr>px = cos (bodyAngle (shipBody s)) * k,
                        py = sin (bodyAngle (shipBody s)) * k\<rparr>)"
    using windForceVector_heading[of windPower ?s3 windDirection] wp op nn
    by (auto simp: applyDrag_frame)
  obtain ffL kL where kL: "0 \<le> kL" "windForceVector_legacy ?t3 windDirection windPower
           = Some (ffL, \<lparr>px = cos (bodyAngle (body_legacy t)) * kL,
                        py = sin (bodyAngle (body_legacy t)) * kL\<rparr>)"
    using windForceVector_legacy_heading[of windPower ?t3 windDirection] wp opL
    by (auto simp: applyDrag_legacy_frame)
  have a: "px (force (shipBody (applyWindForce windDirection windPower s)))
               = px (force (shipBody s)) + k * cos (bodyAngle (shipBody s))"
       "py (force (shipBody (applyWindForce windDirection windPower s)))
               = py (force (shipBody s)) + k * sin (bodyAngle (shipBody s))"
       "torque (shipBody (applyWindForce windDirection windPower s)) = torque (shipBody s)"
    by (simp_all add: applyWindForce_def Let_def k(2) applyForce_def applyDrag_frame)
  have b: "px (force (body_legacy (applyWindForce_legacy windDirection windPower t)))
               = px (force (body_legacy t)) + kL * cos (bodyAngle (body_legacy t))"
       "py (force (body_legacy (applyWindForce_legacy windDirection windPower t)))
               = py (force (body_legacy t)) + kL * sin (bodyAngle (body_legacy t))"
       "torque (body_legacy (applyWindForce_legacy windDirection windPower t))
           = torque (body_legacy t)"
    by (simp_all add: applyWindForce_legacy_def Let_def kL(2) applyForce_def applyDrag_legacy_frame)
  show ?thesis using a b k(1) kL(1) by blast
qed


lemma sailingShip_sails:
  "sails sailingShip = [(''sail1'', \<lparr>sailPosition = \<lparr>px = 165, py = 0\<rparr>, openness = 100, angle = 0\<rparr>)]"
  by (simp add: sailingShip_def oneSailShip_def adjustSails_def addSail_def newShip_def
      newSail_def forEachValue_def setOpenness_def)

lemma sailingShip_body:
  "shipBody sailingShip = \<lparr> bodyPosition = \<lparr>px = 0, py = 0\<rparr>, bodyAngle = 0,
                    velocity = \<lparr>px = 0, py = 0\<rparr>, angularVelocity = 0,
                    force = \<lparr>px = 0, py = 0\<rparr>, torque = 0 \<rparr>"
  by (simp add: sailingShip_def oneSailShip_def adjustSails_def addSail_def newShip_def)

lemma sailingLegacyShip_modules:
  "modules sailingLegacyShip
     = [(''sail1'', \<lparr>mtype = Sail, mposition = \<lparr>px = 165, py = 0\<rparr>, mrotation = 0,
                     mhealth = 100, mopenness = Some 100, mangle = None\<rparr>)]"
  by (simp add: sailingLegacyShip_def oneSailLegacyShip_def adjustSails_legacy_def forEachSail_def
      addModule_def newLegacyShip_def forEachValue_def snapToFixture_def MASTS_def)

lemma sailingLegacyShip_body:
  "body_legacy sailingLegacyShip = \<lparr> bodyPosition = \<lparr>px = 0, py = 0\<rparr>, bodyAngle = 0,
                    velocity = \<lparr>px = 0, py = 0\<rparr>, angularVelocity = 0,
                    force = \<lparr>px = 0, py = 0\<rparr>, torque = 0 \<rparr>"
  by (simp add: sailingLegacyShip_def oneSailLegacyShip_def adjustSails_legacy_def forEachSail_def
      addModule_def newLegacyShip_def)

lemma beam_wind_angle: "windSailAngleDegrees 0 0 0 = 90"
  by (simp add: windSailAngleDegrees_def Let_def)

lemma beam_wind_term: "sailTermAt 90 0 100 = 0.35"
  by (simp add: sailTermAt_def Let_def)

theorem wind_force_along_heading_witness:
  "(0::real) \<le> 1
   \<and> list_ex (\<lambda>sl. openness sl > 0) (map snd (sails sailingShip))
   \<and> list_all (\<lambda>sl. 0 \<le> openness sl) (map snd (sails sailingShip))
   \<and> list_ex (\<lambda>m. orZero (mopenness m) > 0)
        (filter (\<lambda>m. mtype m = Sail) (map snd (modules sailingLegacyShip)))
   \<and> (\<exists>k. 0 \<le> k
        \<and> px (force (shipBody (applyWindForce 0 1 sailingShip))) = k
        \<and> py (force (shipBody (applyWindForce 0 1 sailingShip))) = 0)
   \<and> (\<exists>k. 0 \<le> k
        \<and> px (force (body_legacy (applyWindForce_legacy 0 1 sailingLegacyShip))) = k
        \<and> py (force (body_legacy (applyWindForce_legacy 0 1 sailingLegacyShip))) = 0)"
proof -
  have h: "list_ex (\<lambda>sl. openness sl > 0) (map snd (sails sailingShip))"
          "list_all (\<lambda>sl. 0 \<le> openness sl) (map snd (sails sailingShip))"
          "list_ex (\<lambda>m. orZero (mopenness m) > 0)
            (filter (\<lambda>m. mtype m = Sail) (map snd (modules sailingLegacyShip)))"
    by (simp_all add: sailingShip_sails sailingLegacyShip_modules orZero_def)
  have one: "(0::real) \<le> 1" by simp
  show ?thesis
    using wind_force_along_heading[OF one h, of 0] h
    by (simp add: sailingShip_body sailingLegacyShip_body)
qed

text \<open>
  C1 as first stated covers every wind power. With heading 0, one sail fully open at
  trim 0 and wind direction 0, a wind power of -1 gives a force of -0.0064 (typed class)
  and -0.0084 (older class) along \<open>x\<close>: a negative multiple of the heading vector (1, 0).
\<close>

theorem negative_wind_power_counterexample:
  "list_ex (\<lambda>sl. openness sl > 0) (map snd (sails sailingShip))
   \<and> bodyAngle (shipBody sailingShip) = 0
   \<and> force (shipBody sailingShip) = \<lparr>px = 0, py = 0\<rparr>
   \<and> force (shipBody (applyWindForce 0 (- 1) sailingShip)) = \<lparr>px = - 0.0064, py = 0\<rparr>
   \<and> list_ex (\<lambda>m. orZero (mopenness m) > 0)
        (filter (\<lambda>m. mtype m = Sail) (map snd (modules sailingLegacyShip)))
   \<and> bodyAngle (body_legacy sailingLegacyShip) = 0
   \<and> force (body_legacy sailingLegacyShip) = \<lparr>px = 0, py = 0\<rparr>
   \<and> force (body_legacy (applyWindForce_legacy 0 (- 1) sailingLegacyShip))
       = \<lparr>px = - 0.0084, py = 0\<rparr>"
proof -
  have d: "sails (applyDrag 0 (- 1) sailingShip) = sails sailingShip"
          "bodyAngle (shipBody (applyDrag 0 (- 1) sailingShip)) = 0"
          "force (shipBody (applyDrag 0 (- 1) sailingShip)) = \<lparr>px = 0, py = 0\<rparr>"
          "currentWindDirection (applyDrag 0 (- 1) sailingShip) = 0"
    by (simp_all add: applyDrag_frame sailingShip_body) (simp add: applyDrag_def Let_def)
  have se: "calculateSailEfficiency (applyDrag 0 (- 1) sailingShip) = 0.35"
    by (simp add: calculateSailEfficiency_def Let_def d sailingShip_sails beam_wind_angle beam_wind_term)
  have w: "windForceVector (applyDrag 0 (- 1) sailingShip) 0 (- 1)
            = Some (- 0.0064, \<lparr>px = - 0.0064, py = 0\<rparr>)"
    by (simp add: windForceVector_def Let_def d se sailingShip_sails atan2_def)
  have typed: "force (shipBody (applyWindForce 0 (- 1) sailingShip)) = \<lparr>px = - 0.0064, py = 0\<rparr>"
    by (simp add: applyWindForce_def Let_def w applyForce_def d)
  have dL: "modules (applyDrag_legacy 0 (- 1) sailingLegacyShip) = modules sailingLegacyShip"
          "bodyAngle (body_legacy (applyDrag_legacy 0 (- 1) sailingLegacyShip)) = 0"
          "force (body_legacy (applyDrag_legacy 0 (- 1) sailingLegacyShip)) = \<lparr>px = 0, py = 0\<rparr>"
          "currentWindDirection_legacy (applyDrag_legacy 0 (- 1) sailingLegacyShip) = 0"
    by (simp_all add: applyDrag_legacy_frame sailingLegacyShip_body) (simp add: applyDrag_legacy_def Let_def)
  have seL: "calculateSailEfficiency_legacy (applyDrag_legacy 0 (- 1) sailingLegacyShip) = 0.35"
    by (simp add: calculateSailEfficiency_legacy_def Let_def dL sailingLegacyShip_modules orZero_def
        beam_wind_angle beam_wind_term)
  have wL: "windForceVector_legacy (applyDrag_legacy 0 (- 1) sailingLegacyShip) 0 (- 1)
            = Some (- 0.0084, \<lparr>px = - 0.0084, py = 0\<rparr>)"
    by (simp add: windForceVector_legacy_def Let_def dL seL sailingLegacyShip_modules atan2_def orZero_def)
  have legacy: "force (body_legacy (applyWindForce_legacy 0 (- 1) sailingLegacyShip))
       = \<lparr>px = - 0.0084, py = 0\<rparr>"
    by (simp add: applyWindForce_legacy_def Let_def wL applyForce_def dL)
  show ?thesis
    using typed legacy
    by (simp add: sailingShip_sails sailingShip_body sailingLegacyShip_modules
        sailingLegacyShip_body orZero_def)
qed

subsection \<open>Trimming does not change the speed\<close>

lemma point_eta: "\<lparr>px = px v, py = py v\<rparr> = (v::point)"
  by (cases v) simp

lemma rotate_frame:
  "openness (rotate d sl) = openness sl" "sailPosition (rotate d sl) = sailPosition sl"
  "openness (centerAngle i sl) = openness sl" "sailPosition (centerAngle i sl) = sailPosition sl"
  by (simp_all add: rotate_def centerAngle_def)

lemma forEachValue_frame:
  "map fst (forEachValue f m) = map fst m"
  "(\<And>v. g (f v) = g v) \<Longrightarrow> map (g \<circ> snd) (forEachValue f m) = map (g \<circ> snd) m"
  by (induction m) (auto simp: forEachValue_def)

text \<open>
  C10. For every direction, \<^verbatim>\<open>rotateSails\<close> of the typed class leaves the body's velocity
  as it was; the vessel afterwards differs from the vessel before in the two animation
  fields and in the sails only, and the sails keep their keys, openness and position, so
  only their trim can have changed.
\<close>

theorem rotateSails_keeps_velocity:
  "velocity (shipBody (rotateSails dir s)) = velocity (shipBody s)
   \<and> rotateSails dir s
       = s\<lparr>isRotatingSails := True, sailRotationTimer := 10,
            sails := sails (rotateSails dir s)\<rparr>
   \<and> map fst (sails (rotateSails dir s)) = map fst (sails s)
   \<and> map (openness \<circ> snd) (sails (rotateSails dir s)) = map (openness \<circ> snd) (sails s)
   \<and> map (sailPosition \<circ> snd) (sails (rotateSails dir s))
       = map (sailPosition \<circ> snd) (sails s)"
proof (intro conjI)
  show "velocity (shipBody (rotateSails dir s)) = velocity (shipBody s)"
    by (simp add: rotateSails_def Let_def setVelocity_def point_eta)
  show "rotateSails dir s
       = s\<lparr>isRotatingSails := True, sailRotationTimer := 10,
            sails := sails (rotateSails dir s)\<rparr>"
    by (simp add: rotateSails_def Let_def setVelocity_def point_eta)
  show "map fst (sails (rotateSails dir s)) = map fst (sails s)"
    by (simp add: rotateSails_def Let_def forEachValue_frame)
  show "map (openness \<circ> snd) (sails (rotateSails dir s)) = map (openness \<circ> snd) (sails s)"
    unfolding rotateSails_def Let_def
    by (cases dir) (simp_all add: forEachValue_frame rotate_frame)
  show "map (sailPosition \<circ> snd) (sails (rotateSails dir s))
       = map (sailPosition \<circ> snd) (sails s)"
    unfolding rotateSails_def Let_def
    by (cases dir) (simp_all add: forEachValue_frame rotate_frame)
qed

subsection \<open>The wind cycle\<close>

lemma jsRem_nonneg: "0 \<le> e \<Longrightarrow> jsRem e 300000 = e mod 300000"
  by (cases "e = 0") (simp_all add: jsRem_def)

lemma jsRem_neg:
  assumes "e < 0"
  shows "jsRem e 300000 = (if e mod 300000 = 0 then 0 else e mod 300000 - 300000)"
proof -
  have "jsRem e 300000 = - ((- e) mod 300000)" using assms by (simp add: jsRem_def)
  also have "\<dots> = (if e mod 300000 = 0 then 0 else e mod 300000 - 300000)"
    by (simp add: zmod_zminus1_eq_if)
  finally show ?thesis .
qed

lemma windDirectionAt_unfold:
  "windDirectionAt e
     = whileAtLeast (pi * 2) (whileBelow 0 (real_of_int (jsRem e 300000) / 300000 * pi * 2))"
  by (simp add: windDirectionAt_def Let_def)

lemma windDirectionAt_eq:
  "windDirectionAt e = real_of_int (e mod 300000) / 300000 * pi * 2"
proof -
  let ?m = "e mod 300000"
  have m: "0 \<le> ?m" "?m < 300000" by simp_all
  have lt: "real_of_int ?m / 300000 * pi * 2 < pi * 2"
  proof -
    have "real_of_int ?m / 300000 < 1" using m(2) by simp
    then have "real_of_int ?m / 300000 * (pi * 2) < 1 * (pi * 2)"
      by (intro mult_strict_right_mono) simp_all
    then show ?thesis by (simp add: mult.assoc)
  qed
  have ge: "0 \<le> real_of_int ?m / 300000 * pi * 2" using m(1) by simp
  show ?thesis
  proof (cases "0 \<le> e \<or> ?m = 0")
    case True
    have "jsRem e 300000 = ?m"
    proof (cases "0 \<le> e")
      case True
      then show ?thesis by (rule jsRem_nonneg)
    next
      case neg: False
      with True have m0: "?m = 0" by blast
      from neg have "e < 0" by simp
      from jsRem_neg[OF this] have "jsRem e 300000 = 0" unfolding m0 by simp
      then show ?thesis unfolding m0 .
    qed
    then have "windDirectionAt e
        = whileAtLeast (pi * 2) (whileBelow 0 (real_of_int ?m / 300000 * pi * 2))"
      unfolding windDirectionAt_unfold by simp
    also have "\<dots> = whileAtLeast (pi * 2) (real_of_int ?m / 300000 * pi * 2)"
      unfolding whileBelow_none[OF ge] ..
    also have "\<dots> = real_of_int ?m / 300000 * pi * 2"
      by (rule whileAtLeast_none[OF lt])
    finally show ?thesis .
  next
    case False
    then have r: "jsRem e 300000 = ?m - 300000" using jsRem_neg[of e] by auto
    have d: "real_of_int (?m - 300000) / 300000 * pi * 2
               = real_of_int ?m / 300000 * pi * 2 - pi * 2"
      by (simp add: field_simps)
    have neg: "real_of_int ?m / 300000 * pi * 2 - pi * 2 < 0" using lt by simp
    have wb: "whileBelow 0 (real_of_int ?m / 300000 * pi * 2 - pi * 2)
            = real_of_int ?m / 300000 * pi * 2"
      using whileBelow_once[OF neg] ge by simp
    have "windDirectionAt e
        = whileAtLeast (pi * 2) (whileBelow 0 (real_of_int (?m - 300000) / 300000 * pi * 2))"
      unfolding windDirectionAt_unfold r ..
    also have "\<dots> = whileAtLeast (pi * 2) (real_of_int ?m / 300000 * pi * 2)"
      unfolding d wb ..
    also have "\<dots> = real_of_int ?m / 300000 * pi * 2"
      by (rule whileAtLeast_none[OF lt])
    finally show ?thesis .
  qed
qed

lemma windPowerAt_range: "0.5 \<le> windPowerAt d r \<and> windPowerAt d r \<le> 2.0"
  by (simp add: windPowerAt_def Let_def)

text \<open>
  C9 (as amended). For every clock value, \<^verbatim>\<open>updateWind\<close> sets the wind direction to
  \<open>((elapsedMs mod periodMs) / periodMs) * 2 pi\<close> with a period of 300000 ms (\<open>mod\<close> the
  remainder in \<open>0 ..< period\<close>), from the elapsed time alone. For every value drawn for
  the jitter the resulting power lies in \<open>[0.5, 2.0]\<close>. The floor from which the power is
  scaled, before the jitter and the final clamp, is 0.75 when the direction is within 30
  degrees of due east or due west and 0.5 otherwise.
\<close>

theorem updateWind_direction_and_power:
  "worldWindDirection (updateWind now random w)
     = real_of_int ((now - windSystemStartTime w) mod 300000) / 300000 * pi * 2
   \<and> worldWindPower (updateWind now random w)
       = windPowerAt (worldWindDirection (updateWind now random w)) random
   \<and> 0.5 \<le> worldWindPower (updateWind now random w)
   \<and> worldWindPower (updateWind now random w) \<le> 2.0
   \<and> minWindPowerAt direction
       = (if \<bar>direction - pi / 2\<bar> < pi / 6 \<or> \<bar>direction - 3 * pi / 2\<bar> < pi / 6
          then 0.75 else 0.5)"
  using windPowerAt_range[of "windDirectionAt (now - windSystemStartTime w)" random]
  by (simp add: updateWind_def Let_def windDirectionAt_eq minWindPowerAt_def)

text \<open>
  C9 as first stated raises the floor of the resulting power to 0.75 near east and west.
  A quarter of a period after the start the wind blows due east; with the jitter at its
  lowest (\<^verbatim>\<open>Math.random()\<close> returning 0) the resulting power is 0.7.
\<close>

theorem east_wind_below_floor_counterexample:
  "worldWindDirection (updateWind 75000 0 \<lparr>worldWindDirection = 0, worldWindPower = 1, windSystemStartTime = 0\<rparr>)
     = pi / 2
   \<and> \<bar>worldWindDirection (updateWind 75000 0
          \<lparr>worldWindDirection = 0, worldWindPower = 1, windSystemStartTime = 0\<rparr>) - pi / 2\<bar> < pi / 6
   \<and> worldWindPower (updateWind 75000 0 \<lparr>worldWindDirection = 0, worldWindPower = 1, windSystemStartTime = 0\<rparr>)
     = 0.7"
proof -
  have d: "windDirectionAt 75000 = pi / 2" by (simp add: windDirectionAt_eq)
  have r1: "jsRemReal (pi / 2) pi = pi / 2"
    by (simp add: jsRemReal_def truncate_def)
  have "truncate (- (1 / 2)) = 0" by (simp add: truncate_def) linarith
  then have r2: "jsRemReal (- (pi / 2)) pi = - (pi / 2)"
    by (simp add: jsRemReal_def)
  have p: "windPowerAt (pi / 2) 0 = 0.7"
    using pi_gt_zero by (simp add: windPowerAt_def Let_def r1 r2 minWindPowerAt_def)
  show ?thesis using pi_gt_zero by (simp add: updateWind_def Let_def d p)
qed


end
